theory Spec2Isabelle
  imports Main "HOL-Library.Sublist"
begin

section \<open>Data model\<close>

text \<open>
  A pandas table is an index (the dates, one per row) and a sequence of labelled
  columns. A cell is \<open>None\<close> where pandas holds NaN. Prices are floats that the
  program never computes with itself (every formula belongs to the indicator library),
  so the cell type is left as a parameter. \<open>len(data)\<close> is the length of the index.
  A label is looked up by its first occurrence; the tables of the provider carry each
  label once. Dates are day numbers.
\<close>

type_synonym date = int

record ('l, 'v) frame =
  index :: "date list"
  cols :: "('l \<times> 'v option list) list"

text \<open>\<open>data.columns\<close>: the labels, in order.\<close>

definition columns :: "('l, 'v) frame \<Rightarrow> 'l list" where
  "columns d = map fst (cols d)"

text \<open>\<open>data.empty\<close>: true when either axis has length zero.\<close>

definition df_empty :: "('l, 'v) frame \<Rightarrow> bool" where
  "df_empty d = (index d = [] \<or> cols d = [])"

text \<open>
  What \<open>yf.download\<close> hands back: a table whose column index is either flat (string
  labels) or a \<open>pd.MultiIndex\<close>, whose labels are non-empty tuples (first level, further
  levels); or nothing at all; or it raises an \<open>Exception\<close> carrying a text.
\<close>

datatype 'v table =
    Index "(string, 'v) frame"
  | MultiIndex "(string \<times> string list, 'v) frame"

datatype 'v fetched = Raises string | Returns "'v table option"

type_synonym 'v provider = "string \<Rightarrow> date \<Rightarrow> date \<Rightarrow> 'v fetched"

datatype py_error = KeyError string

subsection \<open>Chart specifications and the page\<close>

record 'v scatter =
  trace_x :: "date list"
  trace_y :: "'v option list"
  trace_mode :: string
  trace_name :: string
  trace_color :: string

record hline =
  hline_y :: int
  hline_dash :: string
  hline_color :: string

record layout =
  layout_title :: string
  xaxis_title :: string
  yaxis_title :: string
  template :: string

record 'v figure =
  traces :: "'v scatter list"
  hlines :: "hline list"
  fig_layout :: "layout option"

text \<open>What the page shows, in the order the calls were made.\<close>

datatype 'v element =
    Title string
  | SidebarHeader string
  | Error string
  | Subheader string
  | PlotlyChart "'v figure"

type_synonym 'v page = "'v element list"

section \<open>Data acquisition\<close>

text \<open>The three messages of \<open>get_stock_data\<close>. The warning sign is U+26A0, here in UTF-8.\<close>

definition no_data_message :: "string \<Rightarrow> string" where
  "no_data_message ticker =
     [CHR 0xE2, CHR 0x9A, CHR 0xA0] @ '' No data available for '' @ ticker
       @ ''. Please check the symbol and try again.''"

definition close_missing_message :: string where
  "close_missing_message =
     [CHR 0x27] @ ''Close'' @ [CHR 0x27] @ '' column is missing. Unable to compute indicators.''"

definition fetch_error_message :: "string \<Rightarrow> string \<Rightarrow> string" where
  "fetch_error_message ticker e = '' Error fetching data for '' @ ticker @ '': '' @ e"

text \<open>\<open>data.columns = [col[0] for col in data.columns]\<close>, when the index is hierarchical.\<close>

definition flatten :: "'v table \<Rightarrow> (string, 'v) frame" where
  "flatten t =
     (case t of
        Index d \<Rightarrow> d
      | MultiIndex m \<Rightarrow> \<lparr>index = index m, cols = map (\<lambda>(col, xs). (fst col, xs)) (cols m)\<rparr>)"

definition table_empty :: "'v table \<Rightarrow> bool" where
  "table_empty t = (case t of Index d \<Rightarrow> df_empty d | MultiIndex m \<Rightarrow> df_empty m)"

text \<open>
  \<open>get_stock_data\<close>: the page is threaded through, \<open>st.error\<close> appends to it. The
  \<open>except Exception\<close> handler is the \<open>Raises\<close> branch.
\<close>

definition get_stock_data ::
  "'v provider \<Rightarrow> string \<Rightarrow> date \<Rightarrow> date \<Rightarrow> 'v page \<Rightarrow> 'v page \<times> (string, 'v) frame option" where
  "get_stock_data yf_download ticker start end ui =
     (case yf_download ticker start end of
        Raises e \<Rightarrow> (ui @ [Error (fetch_error_message ticker e)], None)
      | Returns None \<Rightarrow> (ui @ [Error (no_data_message ticker)], None)
      | Returns (Some data) \<Rightarrow>
          if table_empty data then (ui @ [Error (no_data_message ticker)], None)
          else if ''Close'' \<notin> set (columns (flatten data))
            then (ui @ [Error close_missing_message], None)
          else (ui, Some (flatten data)))"

section \<open>Indicator derivation\<close>

text \<open>\<open>str\<close> of a Python int, as the f-strings of the column names use it.\<close>

fun str_nat :: "nat \<Rightarrow> string" where
  "str_nat n =
     (if n < 10 then [char_of (48 + n)] else str_nat (n div 10) @ [char_of (48 + n mod 10)])"

declare str_nat.simps [simp del]

definition str_int :: "int \<Rightarrow> string" where
  "str_int i = (if i < 0 then ''-'' @ str_nat (nat (- i)) else str_nat (nat i))"

text \<open>
  The indicator library \<open>ta\<close> is outside the repository: its formulas are parameters,
  each a function from the closing-price column (and its windows) to the derived column.
\<close>

record 'v ta =
  sma_indicator :: "'v option list \<Rightarrow> int \<Rightarrow> 'v option list"
  ema_indicator :: "'v option list \<Rightarrow> int \<Rightarrow> 'v option list"
  bollinger_hband :: "'v option list \<Rightarrow> int \<Rightarrow> int \<Rightarrow> 'v option list"
  bollinger_lband :: "'v option list \<Rightarrow> int \<Rightarrow> int \<Rightarrow> 'v option list"
  rsi :: "'v option list \<Rightarrow> int \<Rightarrow> 'v option list"
  macd :: "'v option list \<Rightarrow> 'v option list"
  macd_signal :: "'v option list \<Rightarrow> 'v option list"

definition bind_err :: "'e + 'a \<Rightarrow> ('a \<Rightarrow> 'e + 'b) \<Rightarrow> 'e + 'b" where
  "bind_err r f = (case r of Inl e \<Rightarrow> Inl e | Inr a \<Rightarrow> f a)"

text \<open>\<open>data[name]\<close> raises \<open>KeyError\<close> on a label that is not there.\<close>

definition getitem :: "(string, 'v) frame \<Rightarrow> string \<Rightarrow> py_error + 'v option list" where
  "getitem data name =
     (case map_of (cols data) name of None \<Rightarrow> Inl (KeyError name) | Some xs \<Rightarrow> Inr xs)"

text \<open>\<open>data[name] = xs\<close> replaces the column of that label, or appends a new one.\<close>

primrec assign :: "'l \<Rightarrow> 'c \<Rightarrow> ('l \<times> 'c) list \<Rightarrow> ('l \<times> 'c) list" where
  "assign k v [] = [(k, v)]"
| "assign k v (p # ps) = (if fst p = k then (k, v) # ps else p # assign k v ps)"

definition setitem :: "(string, 'v) frame \<Rightarrow> string \<Rightarrow> 'v option list \<Rightarrow> (string, 'v) frame" where
  "setitem data name xs = data\<lparr>cols := assign name xs (cols data)\<rparr>"

text \<open>\<open>data.dropna(subset=['Close'], how='any')\<close>: the rows whose closing price is there.\<close>

definition keep_rows :: "bool list \<Rightarrow> 'a list \<Rightarrow> 'a list" where
  "keep_rows present xs = map fst (filter snd (zip xs present))"

definition dropna_close :: "(string, 'v) frame \<Rightarrow> py_error + (string, 'v) frame" where
  "dropna_close data =
     bind_err (getitem data ''Close'') (\<lambda>close.
       let present = map (\<lambda>c. c \<noteq> None) close
       in Inr \<lparr>index = keep_rows present (index data),
               cols = map (\<lambda>(l, xs). (l, keep_rows present xs)) (cols data)\<rparr>)"

definition sma_column :: "int \<Rightarrow> string" where
  "sma_column sma_period = ''SMA_'' @ str_int sma_period"

definition ema_column :: "int \<Rightarrow> string" where
  "ema_column ema_period = ''EMA_'' @ str_int ema_period"

text \<open>The five guarded blocks of \<open>calculate_indicators\<close>, one definition each.\<close>

definition step_sma :: "'v ta \<Rightarrow> bool \<Rightarrow> int \<Rightarrow> (string, 'v) frame \<Rightarrow> py_error + (string, 'v) frame" where
  "step_sma lib show_sma sma_period data =
     (if show_sma \<and> int (length (index data)) > sma_period
      then bind_err (getitem data ''Close'') (\<lambda>close.
             Inr (setitem data (sma_column sma_period) (sma_indicator lib close sma_period)))
      else Inr data)"

definition step_ema :: "'v ta \<Rightarrow> bool \<Rightarrow> int \<Rightarrow> (string, 'v) frame \<Rightarrow> py_error + (string, 'v) frame" where
  "step_ema lib show_ema ema_period data =
     (if show_ema \<and> int (length (index data)) > ema_period
      then bind_err (getitem data ''Close'') (\<lambda>close.
             Inr (setitem data (ema_column ema_period) (ema_indicator lib close ema_period)))
      else Inr data)"

definition step_bollinger :: "'v ta \<Rightarrow> bool \<Rightarrow> (string, 'v) frame \<Rightarrow> py_error + (string, 'v) frame" where
  "step_bollinger lib show_bollinger data =
     (if show_bollinger \<and> length (index data) > 20
      then bind_err (getitem data ''Close'') (\<lambda>close.
             Inr (setitem (setitem data ''BB_high'' (bollinger_hband lib close 20 2))
                    ''BB_low'' (bollinger_lband lib close 20 2)))
      else Inr data)"

definition step_rsi :: "'v ta \<Rightarrow> bool \<Rightarrow> (string, 'v) frame \<Rightarrow> py_error + (string, 'v) frame" where
  "step_rsi lib show_rsi data =
     (if show_rsi \<and> length (index data) > 14
      then bind_err (getitem data ''Close'') (\<lambda>close.
             Inr (setitem data ''RSI'' (rsi lib close 14)))
      else Inr data)"

definition step_macd :: "'v ta \<Rightarrow> bool \<Rightarrow> (string, 'v) frame \<Rightarrow> py_error + (string, 'v) frame" where
  "step_macd lib show_macd data =
     (if show_macd \<and> length (index data) > 26
      then bind_err (getitem data ''Close'') (\<lambda>close.
             Inr (setitem (setitem data ''MACD'' (macd lib close))
                    ''MACD_signal'' (macd_signal lib close)))
      else Inr data)"

definition calculate_indicators ::
  "'v ta \<Rightarrow> (string, 'v) frame option \<Rightarrow> bool \<Rightarrow> int \<Rightarrow> bool \<Rightarrow> int \<Rightarrow> bool \<Rightarrow> bool \<Rightarrow> bool
     \<Rightarrow> py_error + (string, 'v) frame option" where
  "calculate_indicators lib data show_sma sma_period show_ema ema_period
       show_bollinger show_rsi show_macd =
     (case data of
        None \<Rightarrow> Inr None
      | Some d \<Rightarrow>
          if df_empty d then Inr None
          else
            bind_err (dropna_close d) (\<lambda>d.
            bind_err (step_sma lib show_sma sma_period d) (\<lambda>d.
            bind_err (step_ema lib show_ema ema_period d) (\<lambda>d.
            bind_err (step_bollinger lib show_bollinger d) (\<lambda>d.
            bind_err (step_rsi lib show_rsi d) (\<lambda>d.
            bind_err (step_macd lib show_macd d) (\<lambda>d.
            Inr (Some d))))))))"

section \<open>Presentation\<close>

definition go_Figure :: "'v figure" where
  "go_Figure = \<lparr>traces = [], hlines = [], fig_layout = None\<rparr>"

text \<open>
  \<open>fig.add_trace(go.Scatter(x=data.index, y=data[col], mode='lines', name=..,
  line=dict(color=..)))\<close>; the column lookup comes first and may raise.
\<close>

definition add_trace :: "(string, 'v) frame \<Rightarrow> string \<Rightarrow> string \<Rightarrow> string \<Rightarrow> 'v figure \<Rightarrow> py_error + 'v figure" where
  "add_trace data col name color fig =
     bind_err (getitem data col) (\<lambda>ys.
       Inr (fig\<lparr>traces := traces fig @
              [\<lparr>trace_x = index data, trace_y = ys, trace_mode = ''lines'',
                trace_name = name, trace_color = color\<rparr>]\<rparr>))"

definition add_hline :: "int \<Rightarrow> string \<Rightarrow> string \<Rightarrow> 'v figure \<Rightarrow> 'v figure" where
  "add_hline y dash color fig =
     fig\<lparr>hlines := hlines fig @ [\<lparr>hline_y = y, hline_dash = dash, hline_color = color\<rparr>]\<rparr>"

text \<open>Lines 60 to 73: the primary chart.\<close>

definition price_figure ::
  "(string, 'v) frame \<Rightarrow> string \<Rightarrow> bool \<Rightarrow> int \<Rightarrow> bool \<Rightarrow> int \<Rightarrow> bool \<Rightarrow> py_error + 'v figure" where
  "price_figure data ticker show_sma sma_period show_ema ema_period show_bollinger =
     bind_err (add_trace data ''Close'' ''Close Price'' ''blue'' go_Figure) (\<lambda>fig.
     bind_err (if show_sma \<and> sma_column sma_period \<in> set (columns data)
               then add_trace data (sma_column sma_period) (''SMA '' @ str_int sma_period)
                      ''orange'' fig
               else Inr fig) (\<lambda>fig.
     bind_err (if show_ema \<and> ema_column ema_period \<in> set (columns data)
               then add_trace data (ema_column ema_period) (''EMA '' @ str_int ema_period)
                      ''green'' fig
               else Inr fig) (\<lambda>fig.
     bind_err (if show_bollinger \<and> ''BB_high'' \<in> set (columns data)
               then bind_err (add_trace data ''BB_high'' ''Bollinger High'' ''red'' fig)
                      (add_trace data ''BB_low'' ''Bollinger Low'' ''purple'')
               else Inr fig) (\<lambda>fig.
     Inr (fig\<lparr>fig_layout := Some \<lparr>layout_title = ticker @ '' Stock Price'',
            xaxis_title = ''Date'', yaxis_title = ''Price'', template = ''plotly_dark''\<rparr>\<rparr>)))))"

text \<open>Lines 78 to 81 and 86 to 88: the two auxiliary charts.\<close>

definition rsi_figure :: "(string, 'v) frame \<Rightarrow> py_error + 'v figure" where
  "rsi_figure data =
     bind_err (add_trace data ''RSI'' ''RSI'' ''yellow'' go_Figure) (\<lambda>fig.
       Inr (add_hline 30 ''dot'' ''green'' (add_hline 70 ''dot'' ''red'' fig)))"

definition macd_figure :: "(string, 'v) frame \<Rightarrow> py_error + 'v figure" where
  "macd_figure data =
     bind_err (add_trace data ''MACD'' ''MACD'' ''cyan'' go_Figure)
       (add_trace data ''MACD_signal'' ''Signal Line'' ''magenta'')"

text \<open>
  \<open>plot_stock_data\<close> draws onto the page. An exception stops it where it is raised:
  what was drawn before stays on the page, and the exception is returned beside it.
\<close>

definition plot_rsi :: "(string, 'v) frame \<Rightarrow> bool \<Rightarrow> 'v page \<Rightarrow> 'v page \<times> py_error option" where
  "plot_rsi data show_rsi ui =
     (if show_rsi \<and> ''RSI'' \<in> set (columns data)
      then (case rsi_figure data of
              Inl e \<Rightarrow> (ui @ [Subheader ''Relative Strength Index (RSI)''], Some e)
            | Inr fig_rsi \<Rightarrow>
                (ui @ [Subheader ''Relative Strength Index (RSI)'', PlotlyChart fig_rsi], None))
      else (ui, None))"

definition plot_macd :: "(string, 'v) frame \<Rightarrow> bool \<Rightarrow> 'v page \<Rightarrow> 'v page \<times> py_error option" where
  "plot_macd data show_macd ui =
     (if show_macd \<and> ''MACD'' \<in> set (columns data)
      then (case macd_figure data of
              Inl e \<Rightarrow> (ui @ [Subheader ''MACD Indicator''], Some e)
            | Inr fig_macd \<Rightarrow> (ui @ [Subheader ''MACD Indicator'', PlotlyChart fig_macd], None))
      else (ui, None))"

definition plot_stock_data ::
  "(string, 'v) frame \<Rightarrow> string \<Rightarrow> bool \<Rightarrow> int \<Rightarrow> bool \<Rightarrow> int \<Rightarrow> bool \<Rightarrow> bool \<Rightarrow> bool
     \<Rightarrow> 'v page \<Rightarrow> 'v page \<times> py_error option" where
  "plot_stock_data data ticker show_sma sma_period show_ema ema_period
       show_bollinger show_rsi show_macd ui =
     (case price_figure data ticker show_sma sma_period show_ema ema_period show_bollinger of
        Inl e \<Rightarrow> (ui, Some e)
      | Inr fig \<Rightarrow>
          (case plot_rsi data show_rsi (ui @ [PlotlyChart fig]) of
             (ui, Some e) \<Rightarrow> (ui, Some e)
           | (ui, None) \<Rightarrow> plot_macd data show_macd ui))"

section \<open>The application\<close>

definition stock_list :: "(string \<times> string) list" where
  "stock_list =
     [(''Apple (AAPL)'', ''AAPL''),
      (''Tesla (TSLA)'', ''TSLA''),
      (''Amazon (AMZN)'', ''AMZN''),
      (''Microsoft (MSFT)'', ''MSFT''),
      (''Google (GOOGL)'', ''GOOGL''),
      (''NVIDIA (NVDA)'', ''NVDA''),
      (''Meta (META)'', ''META''),
      (''Netflix (NFLX)'', ''NFLX'')]"

definition no_valid_data_message :: string where
  "no_valid_data_message = '' No valid data for plotting.''"

definition fetch_failed_message :: string where
  "fetch_failed_message =
     ''Failed to fetch stock data. Check the ticker symbol or try again later.''"

text \<open>Lines 126 to 135 of \<open>main\<close>: fetch, derive, render.\<close>

definition fetch_and_plot ::
  "'v provider \<Rightarrow> 'v ta \<Rightarrow> string \<Rightarrow> date \<Rightarrow> date \<Rightarrow> bool \<Rightarrow> int \<Rightarrow> bool \<Rightarrow> int \<Rightarrow> bool \<Rightarrow> bool \<Rightarrow> bool
     \<Rightarrow> 'v page \<Rightarrow> 'v page \<times> py_error option" where
  "fetch_and_plot yf_download lib ticker start_date end_date show_sma sma_period
       show_ema ema_period show_bollinger show_rsi show_macd ui =
     (case get_stock_data yf_download ticker start_date end_date ui of
        (ui, None) \<Rightarrow> (ui @ [Error fetch_failed_message], None)
      | (ui, Some data) \<Rightarrow>
          (case calculate_indicators lib (Some data) show_sma sma_period show_ema ema_period
                  show_bollinger show_rsi show_macd of
             Inl e \<Rightarrow> (ui, Some e)
           | Inr None \<Rightarrow> (ui @ [Error no_valid_data_message], None)
           | Inr (Some data) \<Rightarrow>
               plot_stock_data data ticker show_sma sma_period show_ema ema_period
                 show_bollinger show_rsi show_macd ui))"

text \<open>
  \<open>main\<close>: the values the sidebar widgets return are its arguments, in the order the
  widgets are created; of the sidebar the page records the header only. The select box
  returns one of its options, the keys of \<open>stock_list\<close>; for any other string the
  dictionary lookup of line 109 raises. The chart emoji of the title is U+1F4C8, here in
  UTF-8.
\<close>

definition main ::
  "'v provider \<Rightarrow> 'v ta \<Rightarrow> string \<Rightarrow> date \<Rightarrow> date \<Rightarrow> bool \<Rightarrow> int \<Rightarrow> bool \<Rightarrow> int \<Rightarrow> bool \<Rightarrow> bool \<Rightarrow> bool
     \<Rightarrow> 'v page \<Rightarrow> 'v page \<times> py_error option" where
  "main yf_download lib selected_stock start_date end_date show_sma sma_period
       show_ema ema_period show_bollinger show_rsi show_macd ui =
     (let ui = ui @ [Title ([CHR 0xF0, CHR 0x9F, CHR 0x93, CHR 0x88] @ '' Stock Market Dashboard''),
                     SidebarHeader ''Stock Selection'']
      in case map_of stock_list selected_stock of
           None \<Rightarrow> (ui, Some (KeyError selected_stock))
         | Some ticker \<Rightarrow>
             fetch_and_plot yf_download lib ticker start_date end_date show_sma sma_period
               show_ema ema_period show_bollinger show_rsi show_macd ui)"

section \<open>Example inputs\<close>

text \<open>A provider that answers every request with the same outcome.\<close>

definition answering :: "'v fetched \<Rightarrow> 'v provider" where
  "answering r = (\<lambda>ticker start end. r)"

text \<open>A stand-in for the indicator library: every formula returns the closing column.\<close>

definition echo_ta :: "nat ta" where
  "echo_ta = \<lparr>sma_indicator = (\<lambda>close window. close), ema_indicator = (\<lambda>close window. close),
     bollinger_hband = (\<lambda>close window window_dev. close),
     bollinger_lband = (\<lambda>close window window_dev. close),
     rsi = (\<lambda>close window. close), macd = (\<lambda>close. close), macd_signal = (\<lambda>close. close)\<rparr>"

text \<open>Three trading days, the second without a closing price.\<close>

definition three_days :: "(string, nat) frame" where
  "three_days = \<lparr>index = [19724, 19725, 19726],
     cols = [(''Close'', [Some 185, None, Some 184]), (''Volume'', [Some 82, Some 58, Some 71])]\<rparr>"

text \<open>What the provider sends for them: the same table under a two-level column index.\<close>

definition aapl_download :: "nat fetched" where
  "aapl_download = Returns (Some (MultiIndex \<lparr>index = [19724, 19725, 19726],
     cols = [((''Close'', [''AAPL'']), [Some 185, None, Some 184]),
             ((''Volume'', [''AAPL'']), [Some 82, Some 58, Some 71])]\<rparr>))"

text \<open>What the derivation makes of them with a moving average of window 1.\<close>

definition two_days_sma :: "(string, nat) frame" where
  "two_days_sma = \<lparr>index = [19724, 19726],
     cols = [(''Close'', [Some 185, Some 184]), (''Volume'', [Some 82, Some 71]),
             (''SMA_1'', [Some 185, Some 184])]\<rparr>"

text \<open>Two days that carry an \<open>RSI\<close> column.\<close>

definition two_days_rsi :: "(string, nat) frame" where
  "two_days_rsi = \<lparr>index = [19724, 19726],
     cols = [(''Close'', [Some 185, Some 184]), (''RSI'', [Some 55, Some 48])]\<rparr>"


text \<open>A provider that is down for one symbol and answers like \<open>yf\<close> for every other.\<close>

definition failing_for :: "string \<Rightarrow> 'v provider \<Rightarrow> 'v provider" where
  "failing_for ticker yf = yf(ticker := answering (Raises ''offline'') ticker)"

section \<open>Acquisition: results\<close>

lemma df_empty_flatten: "df_empty (flatten t) = table_empty t"
  by (cases t) (simp_all add: flatten_def table_empty_def df_empty_def)

lemma columns_flatten_MultiIndex: "columns (flatten (MultiIndex m)) = map fst (columns m)"
  by (simp add: flatten_def columns_def case_prod_unfold comp_def)

text \<open>
  Claim C3. \<open>get_stock_data\<close> returns \<open>None\<close> exactly when the fetch raises, or the
  provider returns nothing or an empty table, or the flattened table has no \<open>Close\<close>
  column. A frame it does return is non-empty and has a \<open>Close\<close> column. Flattening
  replaces each hierarchical label by its first level and leaves a flat table as it is.
  The result type has no exception: none leaves the call.
\<close>

theorem get_stock_data_none_iff:
  "(snd (get_stock_data yf ticker start end ui) = None \<longleftrightarrow>
      (\<exists>e. yf ticker start end = Raises e) \<or> yf ticker start end = Returns None \<or>
      (\<exists>data. yf ticker start end = Returns (Some data) \<and>
         (table_empty data \<or> ''Close'' \<notin> set (columns (flatten data)))))
   \<and> (\<forall>d. snd (get_stock_data yf ticker start end ui) = Some d \<longrightarrow>
         \<not> df_empty d \<and> ''Close'' \<in> set (columns d))
   \<and> (\<forall>m. columns (flatten (MultiIndex m) :: (string, 'a) frame) = map fst (columns m))
   \<and> (\<forall>d. flatten (Index d :: 'a table) = d)"
proof (intro conjI allI impI)
  show "snd (get_stock_data yf ticker start end ui) = None \<longleftrightarrow>
      (\<exists>e. yf ticker start end = Raises e) \<or> yf ticker start end = Returns None \<or>
      (\<exists>data. yf ticker start end = Returns (Some data) \<and>
         (table_empty data \<or> ''Close'' \<notin> set (columns (flatten data))))"
    by (simp add: get_stock_data_def split: fetched.splits option.splits)
next
  fix d assume "snd (get_stock_data yf ticker start end ui) = Some d"
  then obtain data where "yf ticker start end = Returns (Some data)" "\<not> table_empty data"
      "''Close'' \<in> set (columns (flatten data))" "d = flatten data"
    by (auto simp: get_stock_data_def split: fetched.splits option.splits if_splits)
  then show "\<not> df_empty d" "''Close'' \<in> set (columns d)"
    by (simp_all add: df_empty_flatten)
next
  fix m :: "(string \<times> string list, 'a) frame"
  show "columns (flatten (MultiIndex m)) = map fst (columns m)"
    by (rule columns_flatten_MultiIndex)
next
  fix d :: "(string, 'a) frame"
  show "flatten (Index d) = d" by (simp add: flatten_def)
qed

theorem get_stock_data_none_iff_witness:
  "snd (get_stock_data
          (answering (Returns (Some (MultiIndex
             \<lparr>index = [19724], cols = [((''Close'', [''AAPL'']), [Some (185::nat)])]\<rparr>))))
          ''AAPL'' 19723 19875 [])
     = Some \<lparr>index = [19724], cols = [(''Close'', [Some 185])]\<rparr>
   \<and> \<not> df_empty \<lparr>index = [19724], cols = [(''Close'', [Some (185::nat)])]\<rparr>
   \<and> ''Close'' \<in> set (columns \<lparr>index = [19724], cols = [(''Close'', [Some (185::nat)])]\<rparr>)"
  using get_stock_data_none_iff [of
      "answering (Returns (Some (MultiIndex
             \<lparr>index = [19724], cols = [((''Close'', [''AAPL'']), [Some (185::nat)])]\<rparr>)))"
      "''AAPL''" 19723 19875 "[]"]
  by (simp add: get_stock_data_def answering_def table_empty_def df_empty_def flatten_def columns_def)

text \<open>
  Claim C2 as stated fails: with \<open>Close\<close> absent the message is a fixed text, which does
  not mention the ticker \<open>AAPL\<close>.
\<close>

theorem close_missing_message_counterexample:
  "get_stock_data
     (answering (Returns (Some (Index \<lparr>index = [19724], cols = [(''Open'', [Some (185::nat)])]\<rparr>))))
     ''AAPL'' 19723 19875 [] = ([Error close_missing_message], None)
   \<and> \<not> sublist ''AAPL'' close_missing_message"
  by (simp add: get_stock_data_def answering_def table_empty_def df_empty_def flatten_def
      columns_def close_missing_message_def sublist_Cons_right prefix_Cons)

text \<open>
  Claim C2, amended. When the fetch raises, the message contains the ticker and the
  text of the exception. When the provider returns nothing or an empty table, the message
  contains the ticker. When the \<open>Close\<close> column is absent, the message is the fixed text
  \<open>close_missing_message\<close>. Each time the result is \<open>None\<close>.
\<close>

theorem get_stock_data_messages:
  "(\<forall>e. yf ticker start end = Raises e \<longrightarrow>
      get_stock_data yf ticker start end ui = (ui @ [Error (fetch_error_message ticker e)], None)
      \<and> sublist ticker (fetch_error_message ticker e) \<and> sublist e (fetch_error_message ticker e))
   \<and> (yf ticker start end = Returns None \<or>
        (\<exists>data. yf ticker start end = Returns (Some data) \<and> table_empty data) \<longrightarrow>
      get_stock_data yf ticker start end ui = (ui @ [Error (no_data_message ticker)], None)
      \<and> sublist ticker (no_data_message ticker))
   \<and> (\<forall>data. yf ticker start end = Returns (Some data) \<and> \<not> table_empty data
         \<and> ''Close'' \<notin> set (columns (flatten data)) \<longrightarrow>
      get_stock_data yf ticker start end ui = (ui @ [Error close_missing_message], None))"
proof (intro conjI allI impI)
  fix e assume "yf ticker start end = Raises e"
  then show "get_stock_data yf ticker start end ui = (ui @ [Error (fetch_error_message ticker e)], None)"
    by (simp add: get_stock_data_def)
  have "fetch_error_message ticker e = '' Error fetching data for '' @ ticker @ ('': '' @ e)"
    by (simp add: fetch_error_message_def)
  then show "sublist ticker (fetch_error_message ticker e)"
    unfolding sublist_def by blast
  have "fetch_error_message ticker e = ('' Error fetching data for '' @ ticker @ '': '') @ e @ []"
    by (simp add: fetch_error_message_def)
  then show "sublist e (fetch_error_message ticker e)"
    unfolding sublist_def by blast
next
  assume "yf ticker start end = Returns None \<or>
        (\<exists>data. yf ticker start end = Returns (Some data) \<and> table_empty data)"
  then show "get_stock_data yf ticker start end ui = (ui @ [Error (no_data_message ticker)], None)"
    by (auto simp: get_stock_data_def)
  have "no_data_message ticker = ([CHR 0xE2, CHR 0x9A, CHR 0xA0] @ '' No data available for '') @ ticker
       @ ''. Please check the symbol and try again.''"
    by (simp add: no_data_message_def)
  then show "sublist ticker (no_data_message ticker)"
    unfolding sublist_def by blast
next
  fix data assume "yf ticker start end = Returns (Some data) \<and> \<not> table_empty data
         \<and> ''Close'' \<notin> set (columns (flatten data))"
  then show "get_stock_data yf ticker start end ui = (ui @ [Error close_missing_message], None)"
    by (simp add: get_stock_data_def)
qed

theorem get_stock_data_messages_witness:
  "answering (Raises ''timed out'') ''ZZZINVALID'' 19723 19875 = (Raises ''timed out'' :: nat fetched)
   \<and> get_stock_data (answering (Raises ''timed out'')) ''ZZZINVALID'' 19723 19875 ([] :: nat page)
       = ([Error '' Error fetching data for ZZZINVALID: timed out''], None)
   \<and> sublist ''ZZZINVALID'' (fetch_error_message ''ZZZINVALID'' ''timed out'')
   \<and> sublist ''timed out'' (fetch_error_message ''ZZZINVALID'' ''timed out'')"
  using get_stock_data_messages [of "answering (Raises ''timed out'') :: nat provider"
      "''ZZZINVALID''" 19723 19875 "[]"]
  by (simp add: answering_def fetch_error_message_def)

section \<open>Derivation: results\<close>

lemma map_of_assign: "map_of (assign k v ps) = (map_of ps)(k \<mapsto> v)"
  by (induction ps) auto

lemma keys_assign: "fst ` set (assign k v ps) = insert k (fst ` set ps)"
  by (induction ps) auto

lemma index_setitem [simp]: "index (setitem data name xs) = index data"
  by (simp add: setitem_def)

lemma columns_setitem [simp]: "set (columns (setitem data name xs)) = insert name (set (columns data))"
  by (simp add: setitem_def columns_def keys_assign)

lemma getitem_setitem: "getitem (setitem data name xs) l = (if l = name then Inr xs else getitem data l)"
  by (simp add: getitem_def setitem_def map_of_assign)

lemma getitem_Inr_iff: "(\<exists>xs. getitem data l = Inr xs) \<longleftrightarrow> l \<in> set (columns data)"
  by (auto simp: getitem_def columns_def map_of_eq_None_iff split: option.splits)
    (metis domI domIff map_of_eq_None_iff)


lemma dropna_close_Inr:
  assumes "''Close'' \<in> set (columns data)"
  obtains close where "getitem data ''Close'' = Inr close"
    and "dropna_close data =
      Inr \<lparr>index = keep_rows (map (\<lambda>c. c \<noteq> None) close) (index data),
           cols = map (\<lambda>(l, xs). (l, keep_rows (map (\<lambda>c. c \<noteq> None) close) xs)) (cols data)\<rparr>"
proof -
  from assms obtain close where "getitem data ''Close'' = Inr close"
    using getitem_Inr_iff by blast
  then show ?thesis
    by (intro that [of close]) (simp_all add: dropna_close_def bind_err_def Let_def)
qed

lemma dropna_close_columns:
  "dropna_close data = Inr d \<Longrightarrow> columns d = columns data"
  by (auto simp: dropna_close_def bind_err_def columns_def case_prod_unfold comp_def Let_def split: sum.splits)



lemma step_sma_Inr:
  assumes "''Close'' \<in> set (columns data)"
  obtains d where "step_sma lib show_sma sma_period data = Inr d"
    and "index d = index data"
    and "set (columns d) = set (columns data) \<union>
           (if show_sma \<and> sma_period < int (length (index data)) then {sma_column sma_period} else {})"
    and "\<forall>l. l \<noteq> sma_column sma_period \<longrightarrow> getitem d l = getitem data l"
proof -
  from assms obtain close where c: "getitem data ''Close'' = Inr close"
    using getitem_Inr_iff by blast
  show ?thesis
  proof (cases "show_sma \<and> sma_period < int (length (index data))")
    case True
    with c show ?thesis
      by (intro that [of "setitem data (sma_column sma_period) (sma_indicator lib close sma_period)"])
        (simp_all add: step_sma_def bind_err_def getitem_setitem)
  next
    case False
    then show ?thesis
      by (intro that [of data]) (auto simp: step_sma_def)
  qed
qed

lemma step_ema_Inr:
  assumes "''Close'' \<in> set (columns data)"
  obtains d where "step_ema lib show_ema ema_period data = Inr d"
    and "index d = index data"
    and "set (columns d) = set (columns data) \<union>
           (if show_ema \<and> ema_period < int (length (index data)) then {ema_column ema_period} else {})"
    and "\<forall>l. l \<noteq> ema_column ema_period \<longrightarrow> getitem d l = getitem data l"
proof -
  from assms obtain close where c: "getitem data ''Close'' = Inr close"
    using getitem_Inr_iff by blast
  show ?thesis
  proof (cases "show_ema \<and> ema_period < int (length (index data))")
    case True
    with c show ?thesis
      by (intro that [of "setitem data (ema_column ema_period) (ema_indicator lib close ema_period)"])
        (simp_all add: step_ema_def bind_err_def getitem_setitem)
  next
    case False
    then show ?thesis
      by (intro that [of data]) (auto simp: step_ema_def)
  qed
qed

lemma step_bollinger_Inr:
  assumes "''Close'' \<in> set (columns data)"
  obtains d where "step_bollinger lib show_bollinger data = Inr d"
    and "index d = index data"
    and "set (columns d) = set (columns data) \<union>
           (if show_bollinger \<and> 20 < length (index data) then {''BB_high'', ''BB_low''} else {})"
    and "\<forall>l. l \<noteq> ''BB_high'' \<and> l \<noteq> ''BB_low'' \<longrightarrow> getitem d l = getitem data l"
proof -
  from assms obtain close where c: "getitem data ''Close'' = Inr close"
    using getitem_Inr_iff by blast
  show ?thesis
  proof (cases "show_bollinger \<and> 20 < length (index data)")
    case True
    with c show ?thesis
      by (intro that [of "setitem (setitem data ''BB_high'' (bollinger_hband lib close 20 2))
                    ''BB_low'' (bollinger_lband lib close 20 2)"])
        (auto simp: step_bollinger_def bind_err_def getitem_setitem)
  next
    case False
    then show ?thesis
      by (intro that [of data]) (auto simp: step_bollinger_def)
  qed
qed

lemma step_rsi_Inr:
  assumes "''Close'' \<in> set (columns data)"
  obtains d where "step_rsi lib show_rsi data = Inr d"
    and "index d = index data"
    and "set (columns d) = set (columns data) \<union>
           (if show_rsi \<and> 14 < length (index data) then {''RSI''} else {})"
    and "\<forall>l. l \<noteq> ''RSI'' \<longrightarrow> getitem d l = getitem data l"
proof -
  from assms obtain close where c: "getitem data ''Close'' = Inr close"
    using getitem_Inr_iff by blast
  show ?thesis
  proof (cases "show_rsi \<and> 14 < length (index data)")
    case True
    with c show ?thesis
      by (intro that [of "setitem data ''RSI'' (rsi lib close 14)"])
        (auto simp: step_rsi_def bind_err_def getitem_setitem)
  next
    case False
    then show ?thesis
      by (intro that [of data]) (auto simp: step_rsi_def)
  qed
qed

lemma step_macd_Inr:
  assumes "''Close'' \<in> set (columns data)"
  obtains d where "step_macd lib show_macd data = Inr d"
    and "index d = index data"
    and "set (columns d) = set (columns data) \<union>
           (if show_macd \<and> 26 < length (index data) then {''MACD'', ''MACD_signal''} else {})"
    and "\<forall>l. l \<noteq> ''MACD'' \<and> l \<noteq> ''MACD_signal'' \<longrightarrow> getitem d l = getitem data l"
proof -
  from assms obtain close where c: "getitem data ''Close'' = Inr close"
    using getitem_Inr_iff by blast
  show ?thesis
  proof (cases "show_macd \<and> 26 < length (index data)")
    case True
    with c show ?thesis
      by (intro that [of "setitem (setitem data ''MACD'' (macd lib close))
                    ''MACD_signal'' (macd_signal lib close)"])
        (auto simp: step_macd_def bind_err_def getitem_setitem)
  next
    case False
    then show ?thesis
      by (intro that [of data]) (auto simp: step_macd_def)
  qed
qed

text \<open>The labels the five blocks may write.\<close>

lemma calculate_indicators_columns:
  assumes ne: "\<not> df_empty d" and close: "''Close'' \<in> set (columns d)"
  shows "\<exists>d1 out.
    dropna_close d = Inr d1 \<and>
    calculate_indicators lib (Some d) show_sma sma_period show_ema ema_period
      show_bollinger show_rsi show_macd = Inr (Some out) \<and>
    index out = index d1 \<and>
    set (columns out) = set (columns d)
      \<union> (if show_sma \<and> sma_period < int (length (index d1)) then {sma_column sma_period} else {})
      \<union> (if show_ema \<and> ema_period < int (length (index d1)) then {ema_column ema_period} else {})
      \<union> (if show_bollinger \<and> 20 < length (index d1) then {''BB_high'', ''BB_low''} else {})
      \<union> (if show_rsi \<and> 14 < length (index d1) then {''RSI''} else {})
      \<union> (if show_macd \<and> 26 < length (index d1) then {''MACD'', ''MACD_signal''} else {}) \<and>
    (\<forall>l. l \<notin> {sma_column sma_period, ema_column ema_period, ''BB_high'', ''BB_low'',
               ''RSI'', ''MACD'', ''MACD_signal''} \<longrightarrow> getitem out l = getitem d1 l)"
proof -
  from close obtain d1 where d1: "dropna_close d = Inr d1"
    by (rule dropna_close_Inr) blast
  then have c1: "columns d1 = columns d" by (rule dropna_close_columns)
  with close have k1: "''Close'' \<in> set (columns d1)" by simp
  from k1 obtain d2 where d2: "step_sma lib show_sma sma_period d1 = Inr d2"
    and i2: "index d2 = index d1"
    and c2: "set (columns d2) = set (columns d1) \<union>
           (if show_sma \<and> sma_period < int (length (index d1)) then {sma_column sma_period} else {})"
    and g2: "\<forall>l. l \<noteq> sma_column sma_period \<longrightarrow> getitem d2 l = getitem d1 l"
    by (rule step_sma_Inr [where lib = lib and show_sma = show_sma and sma_period = sma_period])
  from k1 c2 have k2: "''Close'' \<in> set (columns d2)" by simp
  from k2 obtain d3 where d3: "step_ema lib show_ema ema_period d2 = Inr d3"
    and i3: "index d3 = index d2"
    and c3: "set (columns d3) = set (columns d2) \<union>
           (if show_ema \<and> ema_period < int (length (index d2)) then {ema_column ema_period} else {})"
    and g3: "\<forall>l. l \<noteq> ema_column ema_period \<longrightarrow> getitem d3 l = getitem d2 l"
    by (rule step_ema_Inr [where lib = lib and show_ema = show_ema and ema_period = ema_period])
  from k2 c3 have k3: "''Close'' \<in> set (columns d3)" by simp
  from k3 obtain d4 where d4: "step_bollinger lib show_bollinger d3 = Inr d4"
    and i4: "index d4 = index d3"
    and c4: "set (columns d4) = set (columns d3) \<union>
           (if show_bollinger \<and> 20 < length (index d3) then {''BB_high'', ''BB_low''} else {})"
    and g4: "\<forall>l. l \<noteq> ''BB_high'' \<and> l \<noteq> ''BB_low'' \<longrightarrow> getitem d4 l = getitem d3 l"
    by (rule step_bollinger_Inr [where lib = lib and show_bollinger = show_bollinger])
  from k3 c4 have k4: "''Close'' \<in> set (columns d4)" by simp
  from k4 obtain d5 where d5: "step_rsi lib show_rsi d4 = Inr d5"
    and i5: "index d5 = index d4"
    and c5: "set (columns d5) = set (columns d4) \<union>
           (if show_rsi \<and> 14 < length (index d4) then {''RSI''} else {})"
    and g5: "\<forall>l. l \<noteq> ''RSI'' \<longrightarrow> getitem d5 l = getitem d4 l"
    by (rule step_rsi_Inr [where lib = lib and show_rsi = show_rsi])
  from k4 c5 have k5: "''Close'' \<in> set (columns d5)" by simp
  from k5 obtain d6 where d6: "step_macd lib show_macd d5 = Inr d6"
    and i6: "index d6 = index d5"
    and c6: "set (columns d6) = set (columns d5) \<union>
           (if show_macd \<and> 26 < length (index d5) then {''MACD'', ''MACD_signal''} else {})"
    and g6: "\<forall>l. l \<noteq> ''MACD'' \<and> l \<noteq> ''MACD_signal'' \<longrightarrow> getitem d6 l = getitem d5 l"
    by (rule step_macd_Inr [where lib = lib and show_macd = show_macd])
  have run: "calculate_indicators lib (Some d) show_sma sma_period show_ema ema_period
      show_bollinger show_rsi show_macd = Inr (Some d6)"
    using ne d1 d2 d3 d4 d5 d6 by (simp add: calculate_indicators_def bind_err_def)
  have idx: "index d6 = index d1"
    using i2 i3 i4 i5 i6 by simp
  have cols6: "set (columns d6) = set (columns d)
      \<union> (if show_sma \<and> sma_period < int (length (index d1)) then {sma_column sma_period} else {})
      \<union> (if show_ema \<and> ema_period < int (length (index d1)) then {ema_column ema_period} else {})
      \<union> (if show_bollinger \<and> 20 < length (index d1) then {''BB_high'', ''BB_low''} else {})
      \<union> (if show_rsi \<and> 14 < length (index d1) then {''RSI''} else {})
      \<union> (if show_macd \<and> 26 < length (index d1) then {''MACD'', ''MACD_signal''} else {})"
    unfolding c6 c5 c4 c3 c2 c1 i5 i4 i3 i2 by (rule refl)
  have keep: "\<forall>l. l \<notin> {sma_column sma_period, ema_column ema_period, ''BB_high'', ''BB_low'',
               ''RSI'', ''MACD'', ''MACD_signal''} \<longrightarrow> getitem d6 l = getitem d1 l"
    using g2 g3 g4 g5 g6 by simp
  from d1 run idx cols6 keep show ?thesis by blast
qed


lemma str_int_1: "str_int 1 = ''1''"
  by code_simp

lemma str_int_20: "str_int 20 = ''20''"
  by code_simp








section \<open>Presentation: results\<close>

lemma bind_err_simps [simp]:
  "bind_err (Inr a) f = f a" "bind_err (Inl e) f = Inl e"
  by (simp_all add: bind_err_def)

lemma add_trace_present:
  assumes "l \<in> set (columns data)"
  obtains ys where "getitem data l = Inr ys"
    and "add_trace data l name color fig =
      Inr (fig\<lparr>traces := traces fig @
              [\<lparr>trace_x = index data, trace_y = ys, trace_mode = ''lines'',
                trace_name = name, trace_color = color\<rparr>]\<rparr>)"
proof -
  from assms obtain ys where "getitem data l = Inr ys"
    using getitem_Inr_iff by blast
  then show ?thesis
    by (intro that [of ys]) (simp_all add: add_trace_def bind_err_def)
qed

lemma add_trace_absent:
  "l \<notin> set (columns data) \<Longrightarrow> add_trace data l name color fig = Inl (KeyError l)"
  by (simp add: add_trace_def bind_err_def getitem_def columns_def map_of_eq_None_iff [THEN iffD2])

text \<open>One optional overlay of the primary chart.\<close>

lemma overlay_step:
  assumes "map (\<lambda>tr. (trace_x tr, Inr (trace_y tr), trace_mode tr, trace_name tr, trace_color tr))
             (traces fig)
           = map (\<lambda>(col, name, color). (index data, getitem data col, ''lines'', name, color)) specs"
  obtains fig' where
    "(if c \<and> l \<in> set (columns data) then add_trace data l name color fig else Inr fig) = Inr fig'"
    and "hlines fig' = hlines fig" and "fig_layout fig' = fig_layout fig"
    and "map (\<lambda>tr. (trace_x tr, Inr (trace_y tr), trace_mode tr, trace_name tr, trace_color tr))
             (traces fig')
           = map (\<lambda>(col, name, color). (index data, getitem data col, ''lines'', name, color))
               (specs @ (if c \<and> l \<in> set (columns data) then [(l, name, color)] else []))"
proof (cases "c \<and> l \<in> set (columns data)")
  case True
  then have "l \<in> set (columns data)" by simp
  then obtain ys where ys: "getitem data l = Inr ys"
    and add: "add_trace data l name color fig =
      Inr (fig\<lparr>traces := traces fig @
              [\<lparr>trace_x = index data, trace_y = ys, trace_mode = ''lines'',
                trace_name = name, trace_color = color\<rparr>]\<rparr>)"
    by (rule add_trace_present [where name = name and color = color and fig = fig])
  show ?thesis
    by (rule that [of "fig\<lparr>traces := traces fig @
              [\<lparr>trace_x = index data, trace_y = ys, trace_mode = ''lines'',
                trace_name = name, trace_color = color\<rparr>]\<rparr>"])
      (use True add ys assms in simp_all)
next
  case False
  show ?thesis
    by (rule that [of fig]) (use False assms in auto)
qed

lemma price_figure_Inr:
  assumes close: "''Close'' \<in> set (columns data)"
    and pair: "show_bollinger \<and> ''BB_high'' \<in> set (columns data) \<longrightarrow> ''BB_low'' \<in> set (columns data)"
  shows "\<exists>fig. price_figure data ticker show_sma sma_period show_ema ema_period show_bollinger = Inr fig
    \<and> hlines fig = []
    \<and> fig_layout fig = Some \<lparr>layout_title = ticker @ '' Stock Price'', xaxis_title = ''Date'',
         yaxis_title = ''Price'', template = ''plotly_dark''\<rparr>
    \<and> map (\<lambda>tr. (trace_x tr, Inr (trace_y tr), trace_mode tr, trace_name tr, trace_color tr))
          (traces fig)
      = map (\<lambda>(col, name, color). (index data, getitem data col, ''lines'', name, color))
          ([(''Close'', ''Close Price'', ''blue'')]
           @ (if show_sma \<and> sma_column sma_period \<in> set (columns data)
              then [(sma_column sma_period, ''SMA '' @ str_int sma_period, ''orange'')] else [])
           @ (if show_ema \<and> ema_column ema_period \<in> set (columns data)
              then [(ema_column ema_period, ''EMA '' @ str_int ema_period, ''green'')] else [])
           @ (if show_bollinger \<and> ''BB_high'' \<in> set (columns data)
              then [(''BB_high'', ''Bollinger High'', ''red''),
                    (''BB_low'', ''Bollinger Low'', ''purple'')] else []))"
proof -
  let ?F = "\<lambda>tr :: 'a scatter. (trace_x tr, Inr (trace_y tr) :: py_error + 'a option list,
     trace_mode tr, trace_name tr, trace_color tr)"
  let ?G = "\<lambda>(col, name, color). (index data, getitem data col, ''lines'', name :: string, color :: string)"
  have start: "map ?F (traces (go_Figure :: 'a figure)) = map ?G []"
    by (simp add: go_Figure_def)
  from start obtain f1 where f1: "(if True \<and> ''Close'' \<in> set (columns data)
        then add_trace data ''Close'' ''Close Price'' ''blue'' go_Figure else Inr go_Figure) = Inr f1"
    and h1: "hlines f1 = hlines (go_Figure :: 'a figure)"
    and l1: "fig_layout f1 = fig_layout (go_Figure :: 'a figure)"
    and t1: "map ?F (traces f1) = map ?G ([] @ (if True \<and> ''Close'' \<in> set (columns data)
        then [(''Close'', ''Close Price'', ''blue'')] else []))"
    by (rule overlay_step [where c = True and l = "''Close''" and name = "''Close Price''"
          and color = "''blue''"])
  from t1 obtain f2 where f2: "(if show_sma \<and> sma_column sma_period \<in> set (columns data)
        then add_trace data (sma_column sma_period) (''SMA '' @ str_int sma_period) ''orange'' f1
        else Inr f1) = Inr f2"
    and h2: "hlines f2 = hlines f1" and l2: "fig_layout f2 = fig_layout f1"
    and t2: "map ?F (traces f2) = map ?G (([] @ (if True \<and> ''Close'' \<in> set (columns data)
        then [(''Close'', ''Close Price'', ''blue'')] else []))
        @ (if show_sma \<and> sma_column sma_period \<in> set (columns data)
           then [(sma_column sma_period, ''SMA '' @ str_int sma_period, ''orange'')] else []))"
    by (rule overlay_step [where c = show_sma and l = "sma_column sma_period"
          and name = "''SMA '' @ str_int sma_period" and color = "''orange''"])
  from t2 obtain f3 where f3: "(if show_ema \<and> ema_column ema_period \<in> set (columns data)
        then add_trace data (ema_column ema_period) (''EMA '' @ str_int ema_period) ''green'' f2
        else Inr f2) = Inr f3"
    and h3: "hlines f3 = hlines f2" and l3: "fig_layout f3 = fig_layout f2"
    and t3: "map ?F (traces f3) = map ?G ((([] @ (if True \<and> ''Close'' \<in> set (columns data)
        then [(''Close'', ''Close Price'', ''blue'')] else []))
        @ (if show_sma \<and> sma_column sma_period \<in> set (columns data)
           then [(sma_column sma_period, ''SMA '' @ str_int sma_period, ''orange'')] else []))
        @ (if show_ema \<and> ema_column ema_period \<in> set (columns data)
           then [(ema_column ema_period, ''EMA '' @ str_int ema_period, ''green'')] else []))"
    by (rule overlay_step [where c = show_ema and l = "ema_column ema_period"
          and name = "''EMA '' @ str_int ema_period" and color = "''green''"])
  from t3 obtain f4 where f4: "(if show_bollinger \<and> ''BB_high'' \<in> set (columns data)
        then add_trace data ''BB_high'' ''Bollinger High'' ''red'' f3 else Inr f3) = Inr f4"
    and h4: "hlines f4 = hlines f3" and l4: "fig_layout f4 = fig_layout f3"
    and t4: "map ?F (traces f4) = map ?G (((([] @ (if True \<and> ''Close'' \<in> set (columns data)
        then [(''Close'', ''Close Price'', ''blue'')] else []))
        @ (if show_sma \<and> sma_column sma_period \<in> set (columns data)
           then [(sma_column sma_period, ''SMA '' @ str_int sma_period, ''orange'')] else []))
        @ (if show_ema \<and> ema_column ema_period \<in> set (columns data)
           then [(ema_column ema_period, ''EMA '' @ str_int ema_period, ''green'')] else []))
        @ (if show_bollinger \<and> ''BB_high'' \<in> set (columns data)
           then [(''BB_high'', ''Bollinger High'', ''red'')] else []))"
    by (rule overlay_step [where c = show_bollinger and l = "''BB_high''"
          and name = "''Bollinger High''" and color = "''red''"])
  from t4 obtain f5 where f5: "(if (show_bollinger \<and> ''BB_high'' \<in> set (columns data))
          \<and> ''BB_low'' \<in> set (columns data)
        then add_trace data ''BB_low'' ''Bollinger Low'' ''purple'' f4 else Inr f4) = Inr f5"
    and h5: "hlines f5 = hlines f4" and l5: "fig_layout f5 = fig_layout f4"
    and t5: "map ?F (traces f5) = map ?G ((((([] @ (if True \<and> ''Close'' \<in> set (columns data)
        then [(''Close'', ''Close Price'', ''blue'')] else []))
        @ (if show_sma \<and> sma_column sma_period \<in> set (columns data)
           then [(sma_column sma_period, ''SMA '' @ str_int sma_period, ''orange'')] else []))
        @ (if show_ema \<and> ema_column ema_period \<in> set (columns data)
           then [(ema_column ema_period, ''EMA '' @ str_int ema_period, ''green'')] else []))
        @ (if show_bollinger \<and> ''BB_high'' \<in> set (columns data)
           then [(''BB_high'', ''Bollinger High'', ''red'')] else []))
        @ (if (show_bollinger \<and> ''BB_high'' \<in> set (columns data)) \<and> ''BB_low'' \<in> set (columns data)
           then [(''BB_low'', ''Bollinger Low'', ''purple'')] else []))"
    by (rule overlay_step [where c = "show_bollinger \<and> ''BB_high'' \<in> set (columns data)"
          and l = "''BB_low''" and name = "''Bollinger Low''" and color = "''purple''"])
  have a1: "add_trace data ''Close'' ''Close Price'' ''blue'' go_Figure = Inr f1"
    using f1 close by simp
  have bands: "(if show_bollinger \<and> ''BB_high'' \<in> set (columns data)
               then bind_err (add_trace data ''BB_high'' ''Bollinger High'' ''red'' f3)
                      (add_trace data ''BB_low'' ''Bollinger Low'' ''purple'')
               else Inr f3) = Inr f5"
    using f4 f5 pair by (auto simp: bind_err_def split: if_splits)
  have run: "price_figure data ticker show_sma sma_period show_ema ema_period show_bollinger
      = Inr (f5\<lparr>fig_layout := Some \<lparr>layout_title = ticker @ '' Stock Price'',
            xaxis_title = ''Date'', yaxis_title = ''Price'', template = ''plotly_dark''\<rparr>\<rparr>)"
    by (simp only: price_figure_def a1 f2 f3 bands bind_err_simps)
  have hl: "hlines f5 = []"
    using h1 h2 h3 h4 h5 by (simp add: go_Figure_def)
  have tr: "map ?F (traces f5) = map ?G ([(''Close'', ''Close Price'', ''blue'')]
           @ (if show_sma \<and> sma_column sma_period \<in> set (columns data)
              then [(sma_column sma_period, ''SMA '' @ str_int sma_period, ''orange'')] else [])
           @ (if show_ema \<and> ema_column ema_period \<in> set (columns data)
              then [(ema_column ema_period, ''EMA '' @ str_int ema_period, ''green'')] else [])
           @ (if show_bollinger \<and> ''BB_high'' \<in> set (columns data)
              then [(''BB_high'', ''Bollinger High'', ''red''),
                    (''BB_low'', ''Bollinger Low'', ''purple'')] else []))"
    using t5 close pair by (auto split: if_splits)
  from run hl tr show ?thesis by simp
qed

lemma rsi_figure_Inr:
  assumes "''RSI'' \<in> set (columns data)"
  obtains ys where "getitem data ''RSI'' = Inr ys"
    and "rsi_figure data = Inr \<lparr>traces = [\<lparr>trace_x = index data, trace_y = ys,
             trace_mode = ''lines'', trace_name = ''RSI'', trace_color = ''yellow''\<rparr>],
           hlines = [\<lparr>hline_y = 70, hline_dash = ''dot'', hline_color = ''red''\<rparr>,
                     \<lparr>hline_y = 30, hline_dash = ''dot'', hline_color = ''green''\<rparr>],
           fig_layout = None\<rparr>"
proof -
  from assms obtain ys where ys: "getitem data ''RSI'' = Inr ys"
    using getitem_Inr_iff by blast
  then show ?thesis
    by (intro that [of ys])
      (simp_all add: rsi_figure_def add_trace_def add_hline_def go_Figure_def)
qed

lemma macd_figure_Inr:
  assumes "''MACD'' \<in> set (columns data)" and "''MACD_signal'' \<in> set (columns data)"
  obtains ms ss where "getitem data ''MACD'' = Inr ms" and "getitem data ''MACD_signal'' = Inr ss"
    and "macd_figure data = Inr \<lparr>traces =
            [\<lparr>trace_x = index data, trace_y = ms, trace_mode = ''lines'',
               trace_name = ''MACD'', trace_color = ''cyan''\<rparr>,
             \<lparr>trace_x = index data, trace_y = ss, trace_mode = ''lines'',
               trace_name = ''Signal Line'', trace_color = ''magenta''\<rparr>],
           hlines = [], fig_layout = None\<rparr>"
proof -
  from assms obtain ms ss where "getitem data ''MACD'' = Inr ms" "getitem data ''MACD_signal'' = Inr ss"
    using getitem_Inr_iff by blast
  then show ?thesis
    by (intro that [of ms ss])
      (simp_all add: macd_figure_def add_trace_def go_Figure_def)
qed

lemma plot_rsi_extends:
  "\<exists>es err. plot_rsi data show_rsi ui = (ui @ es, err) \<and> (\<forall>m. Error m \<notin> set es)"
  by (cases "rsi_figure data") (simp_all add: plot_rsi_def)

lemma plot_macd_extends:
  "\<exists>es err. plot_macd data show_macd ui = (ui @ es, err) \<and> (\<forall>m. Error m \<notin> set es)"
  by (cases "macd_figure data") (simp_all add: plot_macd_def)

lemma plot_stock_data_Inl:
  "price_figure data ticker show_sma sma_period show_ema ema_period show_bollinger = Inl e \<Longrightarrow>
   plot_stock_data data ticker show_sma sma_period show_ema ema_period
     show_bollinger show_rsi show_macd ui = (ui, Some e)"
  by (simp add: plot_stock_data_def)

lemma plot_stock_data_Inr:
  assumes "price_figure data ticker show_sma sma_period show_ema ema_period show_bollinger = Inr fig"
  shows "\<exists>rest err. plot_stock_data data ticker show_sma sma_period show_ema ema_period
     show_bollinger show_rsi show_macd ui = (ui @ PlotlyChart fig # rest, err)
     \<and> (\<forall>m. Error m \<notin> set rest)"
proof -
  obtain es1 err1 where r: "plot_rsi data show_rsi (ui @ [PlotlyChart fig]) = ((ui @ [PlotlyChart fig]) @ es1, err1)"
    and n1: "\<forall>m. Error m \<notin> set es1"
    using plot_rsi_extends by blast
  obtain es2 err2 where m: "plot_macd data show_macd ((ui @ [PlotlyChart fig]) @ es1)
      = (((ui @ [PlotlyChart fig]) @ es1) @ es2, err2)"
    and n2: "\<forall>m. Error m \<notin> set es2"
    using plot_macd_extends by blast
  show ?thesis
  proof (cases err1)
    case None
    with assms r m have "plot_stock_data data ticker show_sma sma_period show_ema ema_period
     show_bollinger show_rsi show_macd ui = (ui @ PlotlyChart fig # (es1 @ es2), err2)"
      by (simp add: plot_stock_data_def)
    with n1 n2 show ?thesis by auto
  next
    case (Some e)
    with assms r have "plot_stock_data data ticker show_sma sma_period show_ema ema_period
     show_bollinger show_rsi show_macd ui = (ui @ PlotlyChart fig # es1, Some e)"
      by (simp add: plot_stock_data_def)
    with n1 show ?thesis by auto
  qed
qed

lemma plot_stock_data_no_Error:
  "\<exists>es err. plot_stock_data data ticker show_sma sma_period show_ema ema_period
     show_bollinger show_rsi show_macd ui = (ui @ es, err) \<and> (\<forall>m. Error m \<notin> set es)"
proof (cases "price_figure data ticker show_sma sma_period show_ema ema_period show_bollinger")
  case (Inl e)
  then show ?thesis by (simp add: plot_stock_data_Inl)
next
  case (Inr fig)
  from plot_stock_data_Inr [OF Inr, of show_rsi show_macd ui] show ?thesis
    by (metis Cons_eq_appendI append_Nil element.distinct(17) set_ConsD)
qed

text \<open>
  Claim C6. For a series with a \<open>Close\<close> column, whose two band columns come together,
  the first element \<open>plot_stock_data\<close> draws is the primary chart. Its traces are, in
  this order, the closing price, then the moving average, the exponential average, the
  upper band and the lower band, each one there exactly when its toggle is set and its
  column is in the series; each trace runs over the index and carries its column. With
  the three overlay toggles off there is one trace; with only the moving average on and
  its column there, two.
\<close>

theorem plot_stock_data_price_chart:
  assumes "''Close'' \<in> set (columns data)"
    and "''BB_high'' \<in> set (columns data) \<longleftrightarrow> ''BB_low'' \<in> set (columns data)"
  shows "\<exists>fig rest err.
    plot_stock_data data ticker show_sma sma_period show_ema ema_period
      show_bollinger show_rsi show_macd ui = (ui @ PlotlyChart fig # rest, err)
    \<and> map (\<lambda>tr. (trace_x tr, Inr (trace_y tr), trace_mode tr, trace_name tr, trace_color tr))
          (traces fig)
      = map (\<lambda>(col, name, color). (index data, getitem data col, ''lines'', name, color))
          ([(''Close'', ''Close Price'', ''blue'')]
           @ (if show_sma \<and> sma_column sma_period \<in> set (columns data)
              then [(sma_column sma_period, ''SMA '' @ str_int sma_period, ''orange'')] else [])
           @ (if show_ema \<and> ema_column ema_period \<in> set (columns data)
              then [(ema_column ema_period, ''EMA '' @ str_int ema_period, ''green'')] else [])
           @ (if show_bollinger \<and> ''BB_high'' \<in> set (columns data)
              then [(''BB_high'', ''Bollinger High'', ''red'')] else [])
           @ (if show_bollinger \<and> ''BB_low'' \<in> set (columns data)
              then [(''BB_low'', ''Bollinger Low'', ''purple'')] else []))
    \<and> (\<not> show_sma \<and> \<not> show_ema \<and> \<not> show_bollinger \<longrightarrow> length (traces fig) = 1)
    \<and> (show_sma \<and> sma_column sma_period \<in> set (columns data) \<and> \<not> show_ema \<and> \<not> show_bollinger
         \<longrightarrow> length (traces fig) = 2)"
proof -
  let ?F = "\<lambda>tr :: 'a scatter. (trace_x tr, Inr (trace_y tr) :: py_error + 'a option list,
     trace_mode tr, trace_name tr, trace_color tr)"
  let ?G = "\<lambda>(col, name, color). (index data, getitem data col, ''lines'', name :: string, color :: string)"
  let ?specs = "[(''Close'', ''Close Price'', ''blue'')]
           @ (if show_sma \<and> sma_column sma_period \<in> set (columns data)
              then [(sma_column sma_period, ''SMA '' @ str_int sma_period, ''orange'')] else [])
           @ (if show_ema \<and> ema_column ema_period \<in> set (columns data)
              then [(ema_column ema_period, ''EMA '' @ str_int ema_period, ''green'')] else [])
           @ (if show_bollinger \<and> ''BB_high'' \<in> set (columns data)
              then [(''BB_high'', ''Bollinger High'', ''red'')] else [])
           @ (if show_bollinger \<and> ''BB_low'' \<in> set (columns data)
              then [(''BB_low'', ''Bollinger Low'', ''purple'')] else [])"
  from assms(2) have pair: "show_bollinger \<and> ''BB_high'' \<in> set (columns data)
      \<longrightarrow> ''BB_low'' \<in> set (columns data)"
    by simp
  from price_figure_Inr [OF assms(1) pair, of ticker show_sma sma_period show_ema ema_period]
  obtain fig where fig: "price_figure data ticker show_sma sma_period show_ema ema_period
      show_bollinger = Inr fig"
    and tr0: "map ?F (traces fig) = map ?G ([(''Close'', ''Close Price'', ''blue'')]
           @ (if show_sma \<and> sma_column sma_period \<in> set (columns data)
              then [(sma_column sma_period, ''SMA '' @ str_int sma_period, ''orange'')] else [])
           @ (if show_ema \<and> ema_column ema_period \<in> set (columns data)
              then [(ema_column ema_period, ''EMA '' @ str_int ema_period, ''green'')] else [])
           @ (if show_bollinger \<and> ''BB_high'' \<in> set (columns data)
              then [(''BB_high'', ''Bollinger High'', ''red''),
                    (''BB_low'', ''Bollinger Low'', ''purple'')] else []))"
    by blast
  have bands: "(if show_bollinger \<and> ''BB_high'' \<in> set (columns data)
              then [(''BB_high'', ''Bollinger High'', ''red''),
                    (''BB_low'', ''Bollinger Low'', ''purple'')] else [])
      = (if show_bollinger \<and> ''BB_high'' \<in> set (columns data)
              then [(''BB_high'', ''Bollinger High'', ''red'')] else [])
           @ (if show_bollinger \<and> ''BB_low'' \<in> set (columns data)
              then [(''BB_low'', ''Bollinger Low'', ''purple'')] else [])"
    using assms(2) by simp
  from tr0 have tr: "map ?F (traces fig) = map ?G ?specs"
    by (simp only: bands)
  have "length (map ?F (traces fig)) = length (map ?G ?specs)"
    by (simp only: tr)
  then have len: "length (traces fig) = length ?specs"
    by (simp only: length_map)
  from len have one: "\<not> show_sma \<and> \<not> show_ema \<and> \<not> show_bollinger \<longrightarrow> length (traces fig) = 1"
    by simp
  from len have two: "show_sma \<and> sma_column sma_period \<in> set (columns data) \<and> \<not> show_ema
      \<and> \<not> show_bollinger \<longrightarrow> length (traces fig) = 2"
    by simp
  from plot_stock_data_Inr [OF fig, of show_rsi show_macd ui]
  obtain rest err where "plot_stock_data data ticker show_sma sma_period show_ema ema_period
      show_bollinger show_rsi show_macd ui = (ui @ PlotlyChart fig # rest, err)"
    by blast
  with tr one two show ?thesis by blast
qed

lemma two_days_sma_facts:
  "''Close'' \<in> set (columns two_days_sma)"
  "''BB_high'' \<in> set (columns two_days_sma) \<longleftrightarrow> ''BB_low'' \<in> set (columns two_days_sma)"
  "sma_column 1 \<in> set (columns two_days_sma)"
  "''RSI'' \<notin> set (columns two_days_sma)"
  "''MACD'' \<notin> set (columns two_days_sma)"
  "''BB_high'' \<notin> set (columns two_days_sma)"
  "calculate_indicators echo_ta (Some three_days) True 1 False 20 False True False
     = Inr (Some two_days_sma)"
  by (simp_all add: two_days_sma_def three_days_def columns_def sma_column_def str_int_1
      calculate_indicators_def df_empty_def dropna_close_def getitem_def keep_rows_def
      step_sma_def step_ema_def step_bollinger_def step_rsi_def step_macd_def setitem_def
      echo_ta_def)

theorem plot_stock_data_price_chart_witness:
  "''Close'' \<in> set (columns two_days_sma)
   \<and> (''BB_high'' \<in> set (columns two_days_sma) \<longleftrightarrow> ''BB_low'' \<in> set (columns two_days_sma))
   \<and> (\<exists>fig rest err.
        plot_stock_data two_days_sma ''AAPL'' True 1 False 20 False False False []
          = (PlotlyChart fig # rest, err)
        \<and> length (traces fig) = 2
        \<and> map trace_name (traces fig) = [''Close Price'', ''SMA 1''])"
proof -
  let ?F = "\<lambda>tr :: nat scatter. (trace_x tr, Inr (trace_y tr) :: py_error + nat option list,
     trace_mode tr, trace_name tr, trace_color tr)"
  from plot_stock_data_price_chart [OF two_days_sma_facts(1,2),
      of "''AAPL''" True 1 False 20 False False False "[]"]
  obtain fig rest err where run: "plot_stock_data two_days_sma ''AAPL'' True 1 False 20 False
        False False [] = ([] @ PlotlyChart fig # rest, err)"
    and tr: "map ?F (traces fig) =
        map (\<lambda>(col, name, color). (index two_days_sma, getitem two_days_sma col, ''lines'', name, color))
          ([(''Close'', ''Close Price'', ''blue'')]
           @ (if True \<and> sma_column 1 \<in> set (columns two_days_sma)
              then [(sma_column 1, ''SMA '' @ str_int 1, ''orange'')] else [])
           @ (if False \<and> ema_column 20 \<in> set (columns two_days_sma)
              then [(ema_column 20, ''EMA '' @ str_int 20, ''green'')] else [])
           @ (if False \<and> ''BB_high'' \<in> set (columns two_days_sma)
              then [(''BB_high'', ''Bollinger High'', ''red'')] else [])
           @ (if False \<and> ''BB_low'' \<in> set (columns two_days_sma)
              then [(''BB_low'', ''Bollinger Low'', ''purple'')] else []))"
    and two: "True \<and> sma_column 1 \<in> set (columns two_days_sma) \<and> \<not> False \<and> \<not> False
         \<longrightarrow> length (traces fig) = 2"
    by blast
  from two have len: "length (traces fig) = 2"
    by (simp add: two_days_sma_facts(3))
  have "map trace_name (traces fig) = map (\<lambda>p. fst (snd (snd (snd p)))) (map ?F (traces fig))"
    by (simp add: comp_def)
  also have "\<dots> = [''Close Price'', ''SMA 1'']"
    unfolding tr by (simp add: two_days_sma_facts(3) str_int_1)
  finally have names: "map trace_name (traces fig) = [''Close Price'', ''SMA 1'']" .
  from run len names two_days_sma_facts(1,2) show ?thesis by auto
qed

text \<open>
  Claim C7. For a series that \<open>plot_stock_data\<close> can render (a \<open>Close\<close> column; the
  lower band and the signal line there whenever the toggled upper band and MACD line
  are), the call raises nothing and draws the primary chart, then the RSI section, then
  the MACD section. The RSI section is there exactly when the RSI toggle is set and the
  series has an \<open>RSI\<close> column: its subheader and one chart holding the RSI line and the
  two reference lines at 70 and 30, which no other chart has. With the toggle set and
  the column absent, nothing of it is drawn and no exception is returned.
\<close>

theorem plot_stock_data_rsi_chart:
  assumes "''Close'' \<in> set (columns data)"
    and "show_bollinger \<and> ''BB_high'' \<in> set (columns data) \<longrightarrow> ''BB_low'' \<in> set (columns data)"
    and "show_macd \<and> ''MACD'' \<in> set (columns data) \<longrightarrow> ''MACD_signal'' \<in> set (columns data)"
  shows "\<exists>es fig fig_macd ys.
    plot_stock_data data ticker show_sma sma_period show_ema ema_period
      show_bollinger show_rsi show_macd ui = (ui @ es, None)
    \<and> es = [PlotlyChart fig]
         @ (if show_rsi \<and> ''RSI'' \<in> set (columns data)
            then [Subheader ''Relative Strength Index (RSI)'',
                  PlotlyChart \<lparr>traces = [\<lparr>trace_x = index data, trace_y = ys,
                      trace_mode = ''lines'', trace_name = ''RSI'', trace_color = ''yellow''\<rparr>],
                    hlines = [\<lparr>hline_y = 70, hline_dash = ''dot'', hline_color = ''red''\<rparr>,
                              \<lparr>hline_y = 30, hline_dash = ''dot'', hline_color = ''green''\<rparr>],
                    fig_layout = None\<rparr>]
            else [])
         @ (if show_macd \<and> ''MACD'' \<in> set (columns data)
            then [Subheader ''MACD Indicator'', PlotlyChart fig_macd] else [])
    \<and> (show_rsi \<and> ''RSI'' \<in> set (columns data) \<longrightarrow> getitem data ''RSI'' = Inr ys)
    \<and> hlines fig = [] \<and> hlines fig_macd = []
    \<and> (Subheader ''Relative Strength Index (RSI)'' \<in> set es
          \<longleftrightarrow> show_rsi \<and> ''RSI'' \<in> set (columns data))
    \<and> ((\<exists>f. PlotlyChart f \<in> set es \<and> map hline_y (hlines f) = [70, 30])
          \<longleftrightarrow> show_rsi \<and> ''RSI'' \<in> set (columns data))"
proof -
  from price_figure_Inr [OF assms(1,2), of ticker show_sma sma_period show_ema ema_period]
  obtain fig where fig: "price_figure data ticker show_sma sma_period show_ema ema_period
      show_bollinger = Inr fig" and hfig: "hlines fig = []"
    by blast
  let ?rsi = "show_rsi \<and> ''RSI'' \<in> set (columns data)"
  let ?macd = "show_macd \<and> ''MACD'' \<in> set (columns data)"
  obtain ys where ys: "?rsi \<longrightarrow> getitem data ''RSI'' = Inr ys"
    and rsi: "?rsi \<longrightarrow> rsi_figure data = Inr \<lparr>traces = [\<lparr>trace_x = index data, trace_y = ys,
             trace_mode = ''lines'', trace_name = ''RSI'', trace_color = ''yellow''\<rparr>],
           hlines = [\<lparr>hline_y = 70, hline_dash = ''dot'', hline_color = ''red''\<rparr>,
                     \<lparr>hline_y = 30, hline_dash = ''dot'', hline_color = ''green''\<rparr>],
           fig_layout = None\<rparr>"
  proof (cases ?rsi)
    case True
    then have "''RSI'' \<in> set (columns data)" by simp
    then show ?thesis by (rule rsi_figure_Inr) (use that in blast)
  next
    case False
    then show ?thesis using that [of "[]"] by blast
  qed
  obtain fig_macd :: "'a figure" where macd: "?macd \<longrightarrow> macd_figure data = Inr fig_macd"
    and hmacd: "hlines fig_macd = []"
  proof (cases ?macd)
    case True
    with assms(3) have "''MACD'' \<in> set (columns data)" "''MACD_signal'' \<in> set (columns data)"
      by simp_all
    then obtain ms ss where "macd_figure data = Inr \<lparr>traces =
            [\<lparr>trace_x = index data, trace_y = ms, trace_mode = ''lines'',
               trace_name = ''MACD'', trace_color = ''cyan''\<rparr>,
             \<lparr>trace_x = index data, trace_y = ss, trace_mode = ''lines'',
               trace_name = ''Signal Line'', trace_color = ''magenta''\<rparr>],
           hlines = [], fig_layout = None\<rparr>"
      by (rule macd_figure_Inr)
    with that [of "\<lparr>traces =
            [\<lparr>trace_x = index data, trace_y = ms, trace_mode = ''lines'',
               trace_name = ''MACD'', trace_color = ''cyan''\<rparr>,
             \<lparr>trace_x = index data, trace_y = ss, trace_mode = ''lines'',
               trace_name = ''Signal Line'', trace_color = ''magenta''\<rparr>],
           hlines = [], fig_layout = None\<rparr>"]
    show ?thesis by simp
  next
    case False
    then show ?thesis using that [of go_Figure] by (auto simp: go_Figure_def)
  qed
  let ?rsi_chart = "\<lparr>traces = [\<lparr>trace_x = index data, trace_y = ys,
                      trace_mode = ''lines'', trace_name = ''RSI'', trace_color = ''yellow''\<rparr>],
                    hlines = [\<lparr>hline_y = 70, hline_dash = ''dot'', hline_color = ''red''\<rparr>,
                              \<lparr>hline_y = 30, hline_dash = ''dot'', hline_color = ''green''\<rparr>],
                    fig_layout = None\<rparr>"
  let ?es = "[PlotlyChart fig]
         @ (if ?rsi then [Subheader ''Relative Strength Index (RSI)'', PlotlyChart ?rsi_chart] else [])
         @ (if ?macd then [Subheader ''MACD Indicator'', PlotlyChart fig_macd] else [])"
  have r: "plot_rsi data show_rsi (ui @ [PlotlyChart fig])
      = (ui @ [PlotlyChart fig]
           @ (if ?rsi then [Subheader ''Relative Strength Index (RSI)'', PlotlyChart ?rsi_chart] else []),
         None)"
    using rsi by (simp add: plot_rsi_def)
  have m: "\<And>page. plot_macd data show_macd page
      = (page @ (if ?macd then [Subheader ''MACD Indicator'', PlotlyChart fig_macd] else []), None)"
    using macd by (simp add: plot_macd_def)
  have run: "plot_stock_data data ticker show_sma sma_period show_ema ema_period
      show_bollinger show_rsi show_macd ui = (ui @ ?es, None)"
    by (simp only: plot_stock_data_def fig r m sum.case prod.case option.case append_assoc)
  define rsi_part where "rsi_part =
      (if ?rsi then [Subheader ''Relative Strength Index (RSI)'', PlotlyChart ?rsi_chart] else [])"
  define macd_part where "macd_part =
      (if ?macd then [Subheader ''MACD Indicator'', PlotlyChart fig_macd] else [])"
  have es: "?es = [PlotlyChart fig] @ rsi_part @ macd_part"
    by (simp only: rsi_part_def macd_part_def)
  have r1: "Subheader ''Relative Strength Index (RSI)'' \<in> set rsi_part \<longleftrightarrow> ?rsi"
    by (simp add: rsi_part_def)
  have r2: "(\<exists>f. PlotlyChart f \<in> set rsi_part \<and> map hline_y (hlines f) = [70, 30]) \<longleftrightarrow> ?rsi"
    by (simp add: rsi_part_def)
  have m1: "Subheader ''Relative Strength Index (RSI)'' \<notin> set macd_part"
    by (simp add: macd_part_def)
  have m2: "\<forall>f. PlotlyChart f \<in> set macd_part \<longrightarrow> hlines f = []"
    by (simp add: macd_part_def hmacd)
  have p2: "\<forall>f. PlotlyChart f \<in> set [PlotlyChart fig] \<longrightarrow> hlines f = []"
    by (simp add: hfig)
  have p1: "Subheader ''Relative Strength Index (RSI)'' \<notin> set [PlotlyChart fig]"
    by simp
  have sub: "Subheader ''Relative Strength Index (RSI)'' \<in> set ?es \<longleftrightarrow> ?rsi"
    unfolding es set_append using r1 m1 p1 by blast
  have nil: "\<And>f :: 'a figure. hlines f = [] \<Longrightarrow> map hline_y (hlines f) \<noteq> [70, 30]"
    by simp
  have ref: "(\<exists>f. PlotlyChart f \<in> set ?es \<and> map hline_y (hlines f) = [70, 30]) \<longleftrightarrow> ?rsi"
    unfolding es set_append using r2 m2 p2 nil by (metis Un_iff)
  show ?thesis
    apply (rule exI [of _ ?es], rule exI [of _ fig], rule exI [of _ fig_macd], rule exI [of _ ys])
    apply (intro conjI)
    subgoal by (rule run)
    subgoal by (rule refl)
    subgoal by (rule ys)
    subgoal by (rule hfig)
    subgoal by (rule hmacd)
    subgoal by (rule sub)
    subgoal by (rule ref)
    done
qed

lemma two_days_rsi_facts:
  "''Close'' \<in> set (columns two_days_rsi)"
  "''RSI'' \<in> set (columns two_days_rsi)"
  "''BB_high'' \<notin> set (columns two_days_rsi)"
  "''MACD'' \<notin> set (columns two_days_rsi)"
  "getitem two_days_rsi ''RSI'' = Inr [Some 55, Some 48]"
  "index two_days_rsi = [19724, 19726]"
  by (simp_all add: two_days_rsi_def columns_def getitem_def)

theorem plot_stock_data_rsi_chart_witness:
  "''Close'' \<in> set (columns two_days_sma)
   \<and> ''BB_high'' \<notin> set (columns two_days_sma) \<and> ''MACD'' \<notin> set (columns two_days_sma)
   \<and> calculate_indicators echo_ta (Some three_days) True 1 False 20 False True False
        = Inr (Some two_days_sma)
   \<and> ''RSI'' \<notin> set (columns two_days_sma)
   \<and> (\<exists>fig. plot_stock_data two_days_sma ''AAPL'' True 1 False 20 False True False []
          = ([PlotlyChart fig], None))
   \<and> ''Close'' \<in> set (columns two_days_rsi) \<and> ''RSI'' \<in> set (columns two_days_rsi)
   \<and> (\<exists>fig. plot_stock_data two_days_rsi ''AAPL'' False 20 False 20 False True False []
          = ([PlotlyChart fig, Subheader ''Relative Strength Index (RSI)'',
              PlotlyChart \<lparr>traces = [\<lparr>trace_x = [19724, 19726], trace_y = [Some 55, Some 48],
                      trace_mode = ''lines'', trace_name = ''RSI'', trace_color = ''yellow''\<rparr>],
                    hlines = [\<lparr>hline_y = 70, hline_dash = ''dot'', hline_color = ''red''\<rparr>,
                              \<lparr>hline_y = 30, hline_dash = ''dot'', hline_color = ''green''\<rparr>],
                    fig_layout = None\<rparr>], None))"
proof -
  have b: "False \<and> ''BB_high'' \<in> set (columns two_days_sma) \<longrightarrow> ''BB_low'' \<in> set (columns two_days_sma)"
    by simp
  have m: "False \<and> ''MACD'' \<in> set (columns two_days_sma) \<longrightarrow> ''MACD_signal'' \<in> set (columns two_days_sma)"
    by simp
  from plot_stock_data_rsi_chart [OF two_days_sma_facts(1) b m,
      of "''AAPL''" True 1 False 20 True "[]"]
  obtain es fig fig_macd ys where
    run: "plot_stock_data two_days_sma ''AAPL'' True 1 False 20 False True False [] = ([] @ es, None)"
    and es: "es = [PlotlyChart fig]
         @ (if True \<and> ''RSI'' \<in> set (columns two_days_sma)
            then [Subheader ''Relative Strength Index (RSI)'',
                  PlotlyChart \<lparr>traces = [\<lparr>trace_x = index two_days_sma, trace_y = ys,
                      trace_mode = ''lines'', trace_name = ''RSI'', trace_color = ''yellow''\<rparr>],
                    hlines = [\<lparr>hline_y = 70, hline_dash = ''dot'', hline_color = ''red''\<rparr>,
                              \<lparr>hline_y = 30, hline_dash = ''dot'', hline_color = ''green''\<rparr>],
                    fig_layout = None\<rparr>]
            else [])
         @ (if False \<and> ''MACD'' \<in> set (columns two_days_sma)
            then [Subheader ''MACD Indicator'', PlotlyChart fig_macd] else [])"
    by blast
  from es have "es = [PlotlyChart fig]"
    by (simp add: two_days_sma_facts(4))
  with run have skipped: "\<exists>fig. plot_stock_data two_days_sma ''AAPL'' True 1 False 20 False True False []
          = ([PlotlyChart fig], None)"
    by simp
  have b': "False \<and> ''BB_high'' \<in> set (columns two_days_rsi) \<longrightarrow> ''BB_low'' \<in> set (columns two_days_rsi)"
    by simp
  have m': "False \<and> ''MACD'' \<in> set (columns two_days_rsi) \<longrightarrow> ''MACD_signal'' \<in> set (columns two_days_rsi)"
    by simp
  from plot_stock_data_rsi_chart [OF two_days_rsi_facts(1) b' m',
      of "''AAPL''" False 20 False 20 True "[]"]
  obtain es' fig' fig_macd' ys' where
    run': "plot_stock_data two_days_rsi ''AAPL'' False 20 False 20 False True False [] = ([] @ es', None)"
    and es': "es' = [PlotlyChart fig']
         @ (if True \<and> ''RSI'' \<in> set (columns two_days_rsi)
            then [Subheader ''Relative Strength Index (RSI)'',
                  PlotlyChart \<lparr>traces = [\<lparr>trace_x = index two_days_rsi, trace_y = ys',
                      trace_mode = ''lines'', trace_name = ''RSI'', trace_color = ''yellow''\<rparr>],
                    hlines = [\<lparr>hline_y = 70, hline_dash = ''dot'', hline_color = ''red''\<rparr>,
                              \<lparr>hline_y = 30, hline_dash = ''dot'', hline_color = ''green''\<rparr>],
                    fig_layout = None\<rparr>]
            else [])
         @ (if False \<and> ''MACD'' \<in> set (columns two_days_rsi)
            then [Subheader ''MACD Indicator'', PlotlyChart fig_macd'] else [])"
    and ys': "True \<and> ''RSI'' \<in> set (columns two_days_rsi) \<longrightarrow> getitem two_days_rsi ''RSI'' = Inr ys'"
    by blast
  from ys' have "ys' = [Some 55, Some 48]"
    by (simp add: two_days_rsi_facts(2,5))
  with es' run' have drawn: "\<exists>fig. plot_stock_data two_days_rsi ''AAPL'' False 20 False 20 False True False []
          = ([PlotlyChart fig, Subheader ''Relative Strength Index (RSI)'',
              PlotlyChart \<lparr>traces = [\<lparr>trace_x = [19724, 19726], trace_y = [Some 55, Some 48],
                      trace_mode = ''lines'', trace_name = ''RSI'', trace_color = ''yellow''\<rparr>],
                    hlines = [\<lparr>hline_y = 70, hline_dash = ''dot'', hline_color = ''red''\<rparr>,
                              \<lparr>hline_y = 30, hline_dash = ''dot'', hline_color = ''green''\<rparr>],
                    fig_layout = None\<rparr>], None)"
    by (simp add: two_days_rsi_facts(2,6))
  from skipped drawn two_days_sma_facts(1,4,5,6,7) two_days_rsi_facts(1,2) show ?thesis
    by (intro conjI)
qed

section \<open>The application: results\<close>

lemma get_stock_data_extends:
  "\<exists>es. fst (get_stock_data yf ticker start end ui) = ui @ es
     \<and> (\<forall>m. Error m \<in> set es \<longrightarrow>
           m = fetch_error_message ticker (case yf ticker start end of Raises e \<Rightarrow> e | _ \<Rightarrow> [])
           \<or> m = no_data_message ticker \<or> m = close_missing_message)"
  by (simp add: get_stock_data_def split: fetched.splits option.splits)

lemma messages_differ:
  "fetch_error_message ticker e \<noteq> no_valid_data_message"
  "no_data_message ticker \<noteq> no_valid_data_message"
  "close_missing_message \<noteq> no_valid_data_message"
  "fetch_failed_message \<noteq> no_valid_data_message"
  by (simp_all add: fetch_error_message_def no_data_message_def close_missing_message_def
      fetch_failed_message_def no_valid_data_message_def)

lemma get_stock_data_Some:
  assumes "get_stock_data yf ticker start end ui = (ui', Some d)"
  shows "ui' = ui" and "\<not> df_empty d" and "''Close'' \<in> set (columns d)"
  using assms
  by (auto simp: get_stock_data_def df_empty_flatten split: fetched.splits option.splits if_splits)

lemma fetch_and_plot_Some:
  assumes "get_stock_data yf ticker start_date end_date ui = (ui', Some d)"
  shows "\<exists>out. calculate_indicators lib (Some d) show_sma sma_period show_ema ema_period
           show_bollinger show_rsi show_macd = Inr (Some out)
     \<and> fetch_and_plot yf lib ticker start_date end_date show_sma sma_period show_ema ema_period
           show_bollinger show_rsi show_macd ui
         = plot_stock_data out ticker show_sma sma_period show_ema ema_period
             show_bollinger show_rsi show_macd ui'"
proof -
  from assms have ne: "\<not> df_empty d" and close: "''Close'' \<in> set (columns d)"
    by (rule get_stock_data_Some)+
  from calculate_indicators_columns [OF ne close, of lib show_sma sma_period show_ema ema_period
      show_bollinger show_rsi show_macd]
  obtain out where run: "calculate_indicators lib (Some d) show_sma sma_period show_ema ema_period
           show_bollinger show_rsi show_macd = Inr (Some out)"
    by blast
  with assms show ?thesis
    by (simp add: fetch_and_plot_def)
qed

lemma fetch_and_plot_extends:
  "\<exists>es. fst (fetch_and_plot yf lib ticker start_date end_date show_sma sma_period
             show_ema ema_period show_bollinger show_rsi show_macd ui) = ui @ es
        \<and> Error no_valid_data_message \<notin> set es"
proof (cases "get_stock_data yf ticker start_date end_date ui")
  case (Pair ui' r)
  show ?thesis
  proof (cases r)
    case None
    from get_stock_data_extends [of yf ticker start_date end_date ui]
    obtain es where es: "ui' = ui @ es"
      and ms: "\<forall>m. Error m \<in> set es \<longrightarrow>
           m = fetch_error_message ticker
                 (case yf ticker start_date end_date of Raises e \<Rightarrow> e | _ \<Rightarrow> [])
           \<or> m = no_data_message ticker \<or> m = close_missing_message"
      using Pair by auto
    from ms have "Error no_valid_data_message \<notin> set es"
      using messages_differ by metis
    then have "Error no_valid_data_message \<notin> set (es @ [Error fetch_failed_message])"
      using messages_differ(4) by simp
    moreover have "fst (fetch_and_plot yf lib ticker start_date end_date show_sma sma_period
             show_ema ema_period show_bollinger show_rsi show_macd ui)
        = ui @ (es @ [Error fetch_failed_message])"
      using Pair None es by (simp add: fetch_and_plot_def)
    ultimately show ?thesis by blast
  next
    case (Some d)
    with Pair have g: "get_stock_data yf ticker start_date end_date ui = (ui', Some d)" by simp
    then have same: "ui' = ui" by (rule get_stock_data_Some)
    from fetch_and_plot_Some [OF g, of lib show_sma sma_period show_ema ema_period
        show_bollinger show_rsi show_macd]
    obtain out where "fetch_and_plot yf lib ticker start_date end_date show_sma sma_period
           show_ema ema_period show_bollinger show_rsi show_macd ui
         = plot_stock_data out ticker show_sma sma_period show_ema ema_period
             show_bollinger show_rsi show_macd ui'"
      by blast
    moreover from plot_stock_data_no_Error [of out ticker show_sma sma_period show_ema ema_period
        show_bollinger show_rsi show_macd ui']
    obtain es err where "plot_stock_data out ticker show_sma sma_period show_ema ema_period
             show_bollinger show_rsi show_macd ui' = (ui' @ es, err)"
      and "\<forall>m. Error m \<notin> set es"
      by blast
    ultimately show ?thesis using same by auto
  qed
qed

text \<open>
  Claim C5. A frame that \<open>get_stock_data\<close> returns is not empty, so the derivation
  returns a frame for it, neither \<open>None\<close> nor an exception, and what follows the fetch is
  the call of \<open>plot_stock_data\<close> on that frame. Whatever \<open>main\<close> appends to the page, the
  message \<open>no_valid_data_message\<close> is not in it.
\<close>

theorem no_valid_data_unreachable:
  "(\<forall>ui' d. get_stock_data yf ticker start_date end_date ui = (ui', Some d) \<longrightarrow>
      \<not> df_empty d \<and>
      (\<exists>out. calculate_indicators lib (Some d) show_sma sma_period show_ema ema_period
           show_bollinger show_rsi show_macd = Inr (Some out)
         \<and> fetch_and_plot yf lib ticker start_date end_date show_sma sma_period show_ema
             ema_period show_bollinger show_rsi show_macd ui
           = plot_stock_data out ticker show_sma sma_period show_ema ema_period
               show_bollinger show_rsi show_macd ui'))
   \<and> (\<exists>es. fst (main yf lib selected_stock start_date end_date show_sma sma_period show_ema
                  ema_period show_bollinger show_rsi show_macd ui) = ui @ es
          \<and> Error no_valid_data_message \<notin> set es)"
proof (intro conjI allI impI)
  fix ui' d
  assume g: "get_stock_data yf ticker start_date end_date ui = (ui', Some d)"
  then show "\<not> df_empty d" by (rule get_stock_data_Some)
  from g show "\<exists>out. calculate_indicators lib (Some d) show_sma sma_period show_ema ema_period
           show_bollinger show_rsi show_macd = Inr (Some out)
         \<and> fetch_and_plot yf lib ticker start_date end_date show_sma sma_period show_ema
             ema_period show_bollinger show_rsi show_macd ui
           = plot_stock_data out ticker show_sma sma_period show_ema ema_period
               show_bollinger show_rsi show_macd ui'"
    by (rule fetch_and_plot_Some)
next
  let ?head = "[Title ([CHR 0xF0, CHR 0x9F, CHR 0x93, CHR 0x88] @ '' Stock Market Dashboard''),
                     SidebarHeader ''Stock Selection''] :: 'a page"
  show "\<exists>es. fst (main yf lib selected_stock start_date end_date show_sma sma_period show_ema
                  ema_period show_bollinger show_rsi show_macd ui) = ui @ es
          \<and> Error no_valid_data_message \<notin> set es"
  proof (cases "map_of stock_list selected_stock")
    case None
    then have "fst (main yf lib selected_stock start_date end_date show_sma sma_period show_ema
                  ema_period show_bollinger show_rsi show_macd ui) = ui @ ?head"
      by (simp add: main_def)
    moreover have "Error no_valid_data_message \<notin> set ?head" by simp
    ultimately show ?thesis by blast
  next
    case (Some t)
    from fetch_and_plot_extends [of yf lib t start_date end_date show_sma sma_period show_ema
        ema_period show_bollinger show_rsi show_macd "ui @ ?head"]
    obtain es where "fst (fetch_and_plot yf lib t start_date end_date show_sma sma_period
             show_ema ema_period show_bollinger show_rsi show_macd (ui @ ?head)) = (ui @ ?head) @ es"
      and "Error no_valid_data_message \<notin> set es"
      by blast
    then have "fst (main yf lib selected_stock start_date end_date show_sma sma_period show_ema
                  ema_period show_bollinger show_rsi show_macd ui) = ui @ (?head @ es)"
      and "Error no_valid_data_message \<notin> set (?head @ es)"
      using Some by (simp_all add: main_def)
    then show ?thesis by blast
  qed
qed

lemma aapl_download_fetched:
  "get_stock_data (answering aapl_download) ''AAPL'' 19723 19875 [] = ([], Some three_days)"
  by (simp add: get_stock_data_def answering_def aapl_download_def table_empty_def df_empty_def
      flatten_def columns_def three_days_def)

theorem no_valid_data_unreachable_witness:
  "get_stock_data (answering aapl_download) ''AAPL'' 19723 19875 [] = ([], Some three_days)
   \<and> \<not> df_empty three_days
   \<and> (\<exists>out. calculate_indicators echo_ta (Some three_days) True 1 False 20 False True False
          = Inr (Some out)
        \<and> fetch_and_plot (answering aapl_download) echo_ta ''AAPL'' 19723 19875
            True 1 False 20 False True False []
          = plot_stock_data out ''AAPL'' True 1 False 20 False True False [])"
  using no_valid_data_unreachable [of "answering aapl_download" "''AAPL''" 19723 19875 "[]"
      echo_ta True 1 False 20 False True False "''Apple (AAPL)''"]
    aapl_download_fetched
  by blast






lemma get_stock_data_cong:
  "yf1 ticker start end = yf2 ticker start end \<Longrightarrow>
   get_stock_data yf1 ticker start end ui = get_stock_data yf2 ticker start end ui"
  by (simp add: get_stock_data_def)





lemma fetch_and_plot_cong:
  "yf1 ticker start_date end_date = yf2 ticker start_date end_date \<Longrightarrow>
   fetch_and_plot yf1 lib ticker start_date end_date show_sma sma_period show_ema ema_period
     show_bollinger show_rsi show_macd ui
   = fetch_and_plot yf2 lib ticker start_date end_date show_sma sma_period show_ema ema_period
     show_bollinger show_rsi show_macd ui"
  by (simp add: fetch_and_plot_def get_stock_data_cong [of yf1 ticker start_date end_date yf2])




lemma stock_list_tickers:
  "map snd stock_list = [''AAPL'', ''TSLA'', ''AMZN'', ''MSFT'', ''GOOGL'', ''NVDA'', ''META'', ''NFLX'']"
  by (simp add: stock_list_def)

lemma stock_list_lookup:
  assumes "map_of stock_list selected_stock = Some ticker"
  shows "ticker \<in> set (map snd stock_list)"
proof -
  from assms have "(selected_stock, ticker) \<in> set stock_list"
    by (rule map_of_SomeD)
  then have "snd (selected_stock, ticker) \<in> snd ` set stock_list"
    by (rule imageI)
  then show ?thesis by simp
qed

text \<open>
  Claim C10. \<open>main\<close> consults the provider for a symbol of \<open>stock_list\<close> only: two
  providers that agree on the eight listed symbols give the same run, whatever they do
  for any other string. When the select box returns one of its options, the ticker that
  \<open>main\<close> fetches is the listed symbol of that option, one of AAPL, TSLA, AMZN, MSFT,
  GOOGL, NVDA, META and NFLX.
\<close>

theorem main_fetches_listed_ticker:
  "(\<forall>yf'. (\<forall>t\<in>set (map snd stock_list). yf' t = yf t) \<longrightarrow>
      main yf' lib selected_stock start_date end_date show_sma sma_period show_ema ema_period
        show_bollinger show_rsi show_macd ui
      = main yf lib selected_stock start_date end_date show_sma sma_period show_ema ema_period
        show_bollinger show_rsi show_macd ui)
   \<and> (selected_stock \<in> set (map fst stock_list) \<longrightarrow>
        (\<exists>ticker \<in> set [''AAPL'', ''TSLA'', ''AMZN'', ''MSFT'', ''GOOGL'', ''NVDA'', ''META'', ''NFLX''].
           map_of stock_list selected_stock = Some ticker
         \<and> main yf lib selected_stock start_date end_date show_sma sma_period show_ema ema_period
             show_bollinger show_rsi show_macd ui
           = fetch_and_plot yf lib ticker start_date end_date show_sma sma_period show_ema
               ema_period show_bollinger show_rsi show_macd
               (ui @ [Title ([CHR 0xF0, CHR 0x9F, CHR 0x93, CHR 0x88] @ '' Stock Market Dashboard''),
                      SidebarHeader ''Stock Selection''])))
   \<and> map snd stock_list
       = [''AAPL'', ''TSLA'', ''AMZN'', ''MSFT'', ''GOOGL'', ''NVDA'', ''META'', ''NFLX'']"
proof (intro conjI allI impI)
  fix yf' :: "'a provider"
  assume agree: "\<forall>t\<in>set (map snd stock_list). yf' t = yf t"
  show "main yf' lib selected_stock start_date end_date show_sma sma_period show_ema ema_period
        show_bollinger show_rsi show_macd ui
      = main yf lib selected_stock start_date end_date show_sma sma_period show_ema ema_period
        show_bollinger show_rsi show_macd ui"
  proof (cases "map_of stock_list selected_stock")
    case None
    then show ?thesis by (simp add: main_def)
  next
    case (Some ticker)
    then have "ticker \<in> set (map snd stock_list)" by (rule stock_list_lookup)
    with agree have "yf' ticker = yf ticker" by blast
    then have "yf' ticker start_date end_date = yf ticker start_date end_date" by simp
    then have "fetch_and_plot yf' lib ticker start_date end_date show_sma sma_period show_ema
        ema_period show_bollinger show_rsi show_macd
          (ui @ [Title ([CHR 0xF0, CHR 0x9F, CHR 0x93, CHR 0x88] @ '' Stock Market Dashboard''),
                 SidebarHeader ''Stock Selection''])
      = fetch_and_plot yf lib ticker start_date end_date show_sma sma_period show_ema
        ema_period show_bollinger show_rsi show_macd
          (ui @ [Title ([CHR 0xF0, CHR 0x9F, CHR 0x93, CHR 0x88] @ '' Stock Market Dashboard''),
                 SidebarHeader ''Stock Selection''])"
      by (rule fetch_and_plot_cong)
    with Some show ?thesis by (simp add: main_def)
  qed
next
  assume "selected_stock \<in> set (map fst stock_list)"
  then have "map_of stock_list selected_stock \<noteq> None"
    by (simp add: map_of_eq_None_iff)
  then obtain ticker where t: "map_of stock_list selected_stock = Some ticker" by blast
  then have "ticker \<in> set (map snd stock_list)" by (rule stock_list_lookup)
  then have mem: "ticker \<in> set [''AAPL'', ''TSLA'', ''AMZN'', ''MSFT'', ''GOOGL'', ''NVDA'', ''META'', ''NFLX'']"
    by (simp only: stock_list_tickers)
  from t have "main yf lib selected_stock start_date end_date show_sma sma_period show_ema ema_period
             show_bollinger show_rsi show_macd ui
           = fetch_and_plot yf lib ticker start_date end_date show_sma sma_period show_ema
               ema_period show_bollinger show_rsi show_macd
               (ui @ [Title ([CHR 0xF0, CHR 0x9F, CHR 0x93, CHR 0x88] @ '' Stock Market Dashboard''),
                      SidebarHeader ''Stock Selection''])"
    by (simp add: main_def)
  with t mem show "\<exists>ticker \<in> set [''AAPL'', ''TSLA'', ''AMZN'', ''MSFT'', ''GOOGL'', ''NVDA'', ''META'', ''NFLX''].
           map_of stock_list selected_stock = Some ticker
         \<and> main yf lib selected_stock start_date end_date show_sma sma_period show_ema ema_period
             show_bollinger show_rsi show_macd ui
           = fetch_and_plot yf lib ticker start_date end_date show_sma sma_period show_ema
               ema_period show_bollinger show_rsi show_macd
               (ui @ [Title ([CHR 0xF0, CHR 0x9F, CHR 0x93, CHR 0x88] @ '' Stock Market Dashboard''),
                      SidebarHeader ''Stock Selection''])"
    by (intro bexI [of _ ticker] conjI)
next
  show "map snd stock_list
       = [''AAPL'', ''TSLA'', ''AMZN'', ''MSFT'', ''GOOGL'', ''NVDA'', ''META'', ''NFLX'']"
    by (rule stock_list_tickers)
qed

theorem main_fetches_listed_ticker_witness:
  "''Tesla (TSLA)'' \<in> set (map fst stock_list)
   \<and> map_of stock_list ''Tesla (TSLA)'' = Some ''TSLA''
   \<and> main (answering aapl_download) echo_ta ''Tesla (TSLA)'' 19723 19875
        True 20 False 20 False False False []
      = fetch_and_plot (answering aapl_download) echo_ta ''TSLA'' 19723 19875
          True 20 False 20 False False False
          [Title ([CHR 0xF0, CHR 0x9F, CHR 0x93, CHR 0x88] @ '' Stock Market Dashboard''),
           SidebarHeader ''Stock Selection'']
   \<and> main (failing_for ''ZZZINVALID'' (answering aapl_download)) echo_ta ''Tesla (TSLA)'' 19723 19875
        True 20 False 20 False False False []
      = main (answering aapl_download) echo_ta ''Tesla (TSLA)'' 19723 19875
        True 20 False 20 False False False []"
proof -
  have sel: "''Tesla (TSLA)'' \<in> set (map fst stock_list)"
    by (simp add: stock_list_def)
  have look: "map_of stock_list ''Tesla (TSLA)'' = Some ''TSLA''"
    by (simp add: stock_list_def)
  note inst = main_fetches_listed_ticker [of "answering aapl_download" echo_ta "''Tesla (TSLA)''"
      19723 19875 True 20 False 20 False False False "[]"]
  from inst sel obtain ticker where "map_of stock_list ''Tesla (TSLA)'' = Some ticker"
    and run: "main (answering aapl_download) echo_ta ''Tesla (TSLA)'' 19723 19875
        True 20 False 20 False False False []
      = fetch_and_plot (answering aapl_download) echo_ta ticker 19723 19875
          True 20 False 20 False False False
          ([] @ [Title ([CHR 0xF0, CHR 0x9F, CHR 0x93, CHR 0x88] @ '' Stock Market Dashboard''),
           SidebarHeader ''Stock Selection''])"
    by blast
  with look have tk: "ticker = ''TSLA''" by simp
  have agree: "\<forall>t\<in>set (map snd stock_list).
      failing_for ''ZZZINVALID'' (answering aapl_download) t = answering aapl_download t"
    by (simp add: stock_list_tickers failing_for_def answering_def fun_eq_iff)
  with inst have indep: "main (failing_for ''ZZZINVALID'' (answering aapl_download)) echo_ta ''Tesla (TSLA)''
        19723 19875 True 20 False 20 False False False []
      = main (answering aapl_download) echo_ta ''Tesla (TSLA)'' 19723 19875
        True 20 False 20 False False False []"
    by blast
  from run tk have "main (answering aapl_download) echo_ta ''Tesla (TSLA)'' 19723 19875
        True 20 False 20 False False False []
      = fetch_and_plot (answering aapl_download) echo_ta ''TSLA'' 19723 19875
          True 20 False 20 False False False
          [Title ([CHR 0xF0, CHR 0x9F, CHR 0x93, CHR 0x88] @ '' Stock Market Dashboard''),
           SidebarHeader ''Stock Selection'']"
    by simp
  with sel look indep show ?thesis by (intro conjI)
qed

end
